theory Spec2Isabelle
  imports Complex_Main
begin

section \<open>Python strings\<close>

text \<open>
  A Python \<open>str\<close> is modelled as a \<open>string\<close>: one \<open>char\<close> per code point, so the
  model covers the code points 0 to 255. \<open>length\<close> is Python's \<open>len\<close>, \<open>take n\<close> is the
  slice \<open>[:n]\<close>. \<open>lower\<close> is \<open>str.lower\<close> on these code points. \<open>upper\<close> is
  \<open>str.upper\<close> on ASCII text only: \<open>str.upper\<close> maps some other letters to two
  characters or to code points above 255, and the model leaves every non-ASCII character
  as it is. Theorems whose truth depends on that carry the hypothesis \<open>ascii\<close>.
\<close>

definition ascii_lowercase :: string where
  "ascii_lowercase = ''abcdefghijklmnopqrstuvwxyz''"

definition ascii_uppercase :: string where
  "ascii_uppercase = ''ABCDEFGHIJKLMNOPQRSTUVWXYZ''"

text \<open>The letters from 192 to 222 and from 224 to 254 that \<open>str.lower\<close> maps to each
  other (215 and 247 are the signs of multiplication and division).\<close>

definition latin1_uppercase :: string where
  "latin1_uppercase =
     [CHR 0xC0, CHR 0xC1, CHR 0xC2, CHR 0xC3, CHR 0xC4, CHR 0xC5, CHR 0xC6, CHR 0xC7,
      CHR 0xC8, CHR 0xC9, CHR 0xCA, CHR 0xCB, CHR 0xCC, CHR 0xCD, CHR 0xCE, CHR 0xCF,
      CHR 0xD0, CHR 0xD1, CHR 0xD2, CHR 0xD3, CHR 0xD4, CHR 0xD5, CHR 0xD6, CHR 0xD8,
      CHR 0xD9, CHR 0xDA, CHR 0xDB, CHR 0xDC, CHR 0xDD, CHR 0xDE]"

definition latin1_lowercase :: string where
  "latin1_lowercase =
     [CHR 0xE0, CHR 0xE1, CHR 0xE2, CHR 0xE3, CHR 0xE4, CHR 0xE5, CHR 0xE6, CHR 0xE7,
      CHR 0xE8, CHR 0xE9, CHR 0xEA, CHR 0xEB, CHR 0xEC, CHR 0xED, CHR 0xEE, CHR 0xEF,
      CHR 0xF0, CHR 0xF1, CHR 0xF2, CHR 0xF3, CHR 0xF4, CHR 0xF5, CHR 0xF6, CHR 0xF8,
      CHR 0xF9, CHR 0xFA, CHR 0xFB, CHR 0xFC, CHR 0xFD, CHR 0xFE]"

definition digits :: string where
  "digits = ''0123456789''"

definition upper_char :: "char \<Rightarrow> char" where
  "upper_char c = (case map_of (zip ascii_lowercase ascii_uppercase) c of
                     Some d \<Rightarrow> d | None \<Rightarrow> c)"

definition lower_char :: "char \<Rightarrow> char" where
  "lower_char c = (case map_of (zip (ascii_uppercase @ latin1_uppercase)
                                     (ascii_lowercase @ latin1_lowercase)) c of
                     Some d \<Rightarrow> d | None \<Rightarrow> c)"

definition upper :: "string \<Rightarrow> string" where
  "upper s = map upper_char s"

definition lower :: "string \<Rightarrow> string" where
  "lower s = map lower_char s"

definition ascii :: "string \<Rightarrow> bool" where
  "ascii s = list_all (\<lambda>c. \<not> digit7 c) s"

text \<open>The characters below 256 for which \<open>str.isspace\<close> holds.\<close>

definition whitespace :: string where
  "whitespace = [CHR 0x09, CHR 0x0A, CHR 0x0B, CHR 0x0C, CHR 0x0D, CHR 0x1C, CHR 0x1D,
                 CHR 0x1E, CHR 0x1F, CHR 0x20, CHR 0x85, CHR 0xA0]"

definition is_space :: "char \<Rightarrow> bool" where
  "is_space c = (c \<in> set whitespace)"

definition strip :: "string \<Rightarrow> string" where
  "strip s = rev (dropWhile is_space (rev (dropWhile is_space s)))"

text \<open>
  \<open>str.zfill\<close>: a string at least as long as the width is returned as it is; otherwise
  zeros are inserted on the left, after a leading sign.
\<close>

definition zfill :: "nat \<Rightarrow> string \<Rightarrow> string" where
  "zfill width s =
     (if width \<le> length s then s
      else (case s of
              [] \<Rightarrow> replicate width (CHR ''0'')
            | c # cs \<Rightarrow>
                if c = CHR ''+'' \<or> c = CHR ''-''
                then c # replicate (width - length s) (CHR ''0'') @ cs
                else replicate (width - length s) (CHR ''0'') @ s))"

text \<open>\<open>sep.join(parts)\<close>.\<close>

fun join :: "string \<Rightarrow> string list \<Rightarrow> string" where
  "join sep [] = []"
| "join sep [x] = x"
| "join sep (x # y # ys) = x @ sep @ join sep (y # ys)"

text \<open>\<open>str(n)\<close> for a number: decimal digits, a minus sign for a negative integer.\<close>

fun str_nat :: "nat \<Rightarrow> string" where
  "str_nat n = (if n < 10 then [digits ! n] else str_nat (n div 10) @ [digits ! (n mod 10)])"

definition str_int :: "int \<Rightarrow> string" where
  "str_int i = (if i < 0 then CHR ''-'' # str_nat (nat (- i)) else str_nat (nat i))"

text \<open>\<open>s.replace(old, new)\<close> for a non-empty \<open>old\<close>: occurrences are replaced from the left,
  without overlap.\<close>

function replace :: "string \<Rightarrow> string \<Rightarrow> string \<Rightarrow> string" where
  "replace old new [] = []"
| "replace old new (c # cs) =
     (if old \<noteq> [] \<and> take (length old) (c # cs) = old
      then new @ replace old new (drop (length old) (c # cs))
      else c # replace old new cs)"
  by pat_completeness auto
termination
  by (relation "measure (\<lambda>(old, new, s). length s)") auto

section \<open>Data model (gls\_models.py)\<close>

text \<open>
  The dataclasses become records. Field names carry a prefix (\<open>p_\<close> for \<open>GLSParcel\<close>,
  \<open>r_\<close> for \<open>GLSResponse\<close>, \<open>u_\<close> for \<open>GLSUploadResult\<close>), since two records cannot share a
  field name and \<open>note\<close> is a keyword.
\<close>

record GLSCredentials =
  sede :: string
  codice_cliente :: string
  password :: string
  codice_contratto :: string

definition is_valid :: "GLSCredentials \<Rightarrow> bool" where
  "is_valid c = (sede c \<noteq> [] \<and> codice_cliente c \<noteq> [] \<and> password c \<noteq> []
                 \<and> codice_contratto c \<noteq> [])"

record GLSParcel =
  p_ragione_sociale :: string
  p_indirizzo :: string
  p_localita :: string
  p_zipcode :: string
  p_provincia :: string
  p_colli :: int
  p_peso :: rat
  p_note :: string
  p_email :: string
  p_cellulare :: string
  p_bda :: string
  p_contrassegno :: rat
  p_importo_assicurato :: rat

text \<open>
  \<open>GLSParcel.__post_init__\<close>, run by the dataclass constructor on the fields as given.
  It has no \<open>raise\<close>: every input is normalised. The weights and amounts (Python floats)
  are carried untouched, as rationals.
\<close>

definition post_init :: "GLSParcel \<Rightarrow> GLSParcel" where
  "post_init self =
     (let self = (if length (p_ragione_sociale self) > 35
                  then self\<lparr>p_ragione_sociale := take 35 (p_ragione_sociale self)\<rparr>
                  else self);
          self = (if length (p_indirizzo self) > 35
                  then self\<lparr>p_indirizzo := take 35 (p_indirizzo self)\<rparr>
                  else self);
          self = (if length (p_note self) > 40
                  then self\<lparr>p_note := take 40 (p_note self)\<rparr>
                  else self);
          self = (if length (p_provincia self) > 2
                  then self\<lparr>p_provincia := take 2 (p_provincia self)\<rparr>
                  else self);
          self = self\<lparr>p_provincia := upper (p_provincia self)\<rparr>
      in self\<lparr>p_zipcode := take 5 (zfill 5 (strip (p_zipcode self)))\<rparr>)"

text \<open>The constructor call of \<open>_create_parcel\<close>: the two optional amounts keep their
  default 0.0.\<close>

definition new_GLSParcel ::
  "string \<Rightarrow> string \<Rightarrow> string \<Rightarrow> string \<Rightarrow> string \<Rightarrow> int \<Rightarrow> rat \<Rightarrow> string \<Rightarrow> string
   \<Rightarrow> string \<Rightarrow> string \<Rightarrow> GLSParcel" where
  "new_GLSParcel ragione_sociale indirizzo localita zipcode provincia colli peso note_text
                 email cellulare bda =
     post_init \<lparr>p_ragione_sociale = ragione_sociale, p_indirizzo = indirizzo,
                p_localita = localita, p_zipcode = zipcode, p_provincia = provincia,
                p_colli = colli, p_peso = peso, p_note = note_text, p_email = email,
                p_cellulare = cellulare, p_bda = bda, p_contrassegno = 0,
                p_importo_assicurato = 0\<rparr>"

record GLSResponse =
  r_numero_spedizione :: string
  r_esito :: string
  r_pdf_base64 :: string
  r_error_message :: string
  r_bda :: string

definition new_GLSResponse :: GLSResponse where
  "new_GLSResponse = \<lparr>r_numero_spedizione = [], r_esito = [], r_pdf_base64 = [],
                       r_error_message = [], r_bda = []\<rparr>"

definition is_success :: "GLSResponse \<Rightarrow> bool" where
  "is_success self = (upper (r_esito self) = ''OK'' \<and> r_numero_spedizione self \<noteq> [])"

record GLSUploadResult =
  u_total :: nat
  u_uploaded :: nat
  u_skipped :: nat
  u_failed :: nat
  u_errors :: "string list"
  u_responses :: "GLSResponse list"

definition new_GLSUploadResult :: GLSUploadResult where
  "new_GLSUploadResult = \<lparr>u_total = 0, u_uploaded = 0, u_skipped = 0, u_failed = 0,
                           u_errors = [], u_responses = []\<rparr>"

definition add_success :: "GLSResponse \<Rightarrow> GLSUploadResult \<Rightarrow> GLSUploadResult" where
  "add_success response self =
     self\<lparr>u_uploaded := u_uploaded self + 1, u_responses := u_responses self @ [response]\<rparr>"

definition add_skip :: "string \<Rightarrow> GLSUploadResult \<Rightarrow> GLSUploadResult" where
  "add_skip reason self =
     (let self = self\<lparr>u_skipped := u_skipped self + 1\<rparr>
      in if reason \<noteq> [] then self\<lparr>u_errors := u_errors self @ [''SKIP: '' @ reason]\<rparr>
         else self)"

definition add_failure :: "string \<Rightarrow> string \<Rightarrow> GLSUploadResult \<Rightarrow> GLSUploadResult" where
  "add_failure error bda self =
     self\<lparr>u_failed := u_failed self + 1,
          u_errors := u_errors self @
            [if bda \<noteq> [] then ''ERRORE '' @ bda @ '': '' @ error else ''ERRORE: '' @ error]\<rparr>"

section \<open>Configuration and collaborators\<close>

text \<open>The constants of config.py that the upload engine reads.\<close>

record config =
  GLS_MAX_PARCELS_PER_BATCH :: nat
  GLS_RETRY_ATTEMPTS :: nat
  GLS_RETRY_DELAY :: nat

definition config_py :: config where
  "config_py = \<lparr>GLS_MAX_PARCELS_PER_BATCH = 400, GLS_RETRY_ATTEMPTS = 3, GLS_RETRY_DELAY = 2\<rparr>"

text \<open>
  The response of the remote service as the client sees it through lxml. An element has
  a tag, a text (empty for \<open>None\<close>: the code reads it as \<open>text or ""\<close>) and child elements;
  comments and processing instructions are not part of the model.
  \<open>WellFormed raw root ser\<close> is a body \<open>raw\<close> that \<open>etree.fromstring\<close> parses to \<open>root\<close>, and
  \<open>ser\<close> is \<open>etree.tostring(root, encoding="unicode")\<close>; \<open>NotWellFormed raw msg\<close> is a body
  on which \<open>etree.fromstring\<close> raises \<open>XMLSyntaxError\<close> with text \<open>msg\<close>.
\<close>

datatype xml = Element (x_tag: string) (x_text: string) (x_children: "xml list")

datatype response_body =
    WellFormed string xml string
  | NotWellFormed string string

text \<open>What one call of a SOAP method does: it returns a body, or raises a zeep \<open>Fault\<close>,
  a zeep \<open>TransportError\<close> or another exception (the string is \<open>str(e)\<close>).\<close>

datatype remote_outcome =
    Returns response_body
  | Fault string
  | TransportError string
  | OtherException string

datatype gls_request =
    AddParcel GLSCredentials "GLSParcel list" bool
  | CloseWorkDay GLSCredentials

text \<open>What \<open>_save\<close> meets: no error, an \<open>IOError\<close> from \<open>open\<close>, or an \<open>IOError\<close> from
  \<open>json.dump\<close> after part of the text was written (the flag says whether the bytes
  written decode as UTF-8).\<close>

datatype io_outcome = IoOk | OpenFails string | WriteFails string bool

text \<open>
  Everything the engine calls and does not compute: the library functions on paths and
  the digest, the clock, the construction of the SOAP client, the remote service and the
  file system. The n-th remote call, clock reading, connection and save may each behave
  differently, so each is indexed by its position in the run.
\<close>

record env =
  path_stem :: "string \<Rightarrow> string"
  path_name :: "string \<Rightarrow> string"
  path_parent :: "string \<Rightarrow> string"
  md5_hexdigest :: "string \<Rightarrow> string"
  now_isoformat :: "nat \<Rightarrow> string"
  connect :: "nat \<Rightarrow> string option"
  remote :: "nat \<Rightarrow> gls_request \<Rightarrow> remote_outcome"
  save_io :: "nat \<Rightarrow> io_outcome"

datatype exn = GLSClientError string | RuntimeError string | IndexError | ValueError
  | UnicodeDecodeError

section \<open>The ledger (upload\_tracker.py)\<close>

record RowData =
  indirizzo :: string
  cap :: string
  citta :: string
  provincia :: string
  ragione_sociale :: string
  progressivo :: string
  telefono_fisso :: string
  telefono_cell :: string
  email :: string
  indicazioni :: string

record UploadRecord =
  rec_file :: string
  rec_row :: int
  rec_shipment_id :: string
  rec_ragione_sociale :: string
  rec_uploaded_at :: string
  rec_response :: "(string \<times> string) list option"

datatype history_entry =
    UploadAction string string string
  | ClearFileAction string nat string
  | ClearAllAction nat string

record ledger =
  uploads :: "string \<rightharpoonup> UploadRecord"
  history :: "history_entry list"

definition empty_ledger :: ledger where
  "empty_ledger = \<lparr>uploads = Map.empty, history = []\<rparr>"

text \<open>
  The tracker file of one folder: it does not exist, or it holds the complete JSON text
  of a ledger, or it holds less than that (a proper prefix, possibly nothing), which is
  what \<open>open(..., "w")\<close> leaves until \<open>json.dump\<close> has written everything. The text is
  written in UTF-8 with \<open>ensure_ascii=False\<close>, so a prefix may end inside a character:
  the flag of \<open>Truncated\<close> says whether the bytes decode as UTF-8.
\<close>

datatype file_state = Missing | Truncated bool | Complete ledger

text \<open>
  \<open>_load\<close>: a missing file gives the empty ledger; so does a file that is not valid JSON
  (\<open>JSONDecodeError\<close> is caught), but bytes that do not decode raise
  \<open>UnicodeDecodeError\<close>, which is not caught.
\<close>

definition load :: "file_state \<Rightarrow> exn + ledger" where
  "load f = (case f of
               Complete d \<Rightarrow> Inr d
             | Truncated decodable \<Rightarrow>
                 if decodable then Inr empty_ledger else Inl UnicodeDecodeError
             | Missing \<Rightarrow> Inr empty_ledger)"

text \<open>
  The mutable state of a run. \<open>client_session\<close> is \<open>GLSClient._client is not None\<close>;
  \<open>submissions\<close>, \<open>calls\<close> and \<open>sleeps\<close> log the argument of every call of
  \<open>add_parcels\<close>, every remote call made and every delay slept, oldest first;
  \<open>tracker_base\<close> is the folder of \<open>GLSProcessor._tracker\<close> (\<open>None\<close> before the first use)
  and \<open>tracker_data\<close> its \<open>_data\<close>; \<open>disk\<close> gives the tracker file of each folder.
\<close>

record world =
  client_session :: bool
  connects :: nat
  submissions :: "GLSParcel list list"
  calls :: "gls_request list"
  sleeps :: "nat list"
  tracker_base :: "string option"
  tracker_data :: ledger
  disk :: "string \<Rightarrow> file_state"
  saves :: nat
  clock :: nat

definition generate_row_key :: "env \<Rightarrow> string \<Rightarrow> int \<Rightarrow> RowData \<Rightarrow> string" where
  "generate_row_key E file_path row_index row_data =
     (let file_name = path_stem E file_path;
          key_parts = [ragione_sociale row_data, indirizzo row_data, cap row_data];
          data_str = lower (join ''|'' key_parts);
          data_hash = take 8 (md5_hexdigest E data_str)
      in file_name @ '':'' @ str_int row_index @ '':'' @ data_hash)"

definition is_uploaded :: "env \<Rightarrow> ledger \<Rightarrow> string \<Rightarrow> int \<Rightarrow> RowData \<Rightarrow> bool" where
  "is_uploaded E data file_path row_index row_data =
     (uploads data (generate_row_key E file_path row_index row_data) \<noteq> None)"

text \<open>
  \<open>_save\<close> in its two effects on the file: \<open>open(self.tracker_file, "w")\<close> creates or
  empties the file, and \<open>json.dump\<close> followed by the end of the \<open>with\<close> block leaves the
  complete text of \<open>_data\<close>. An \<open>IOError\<close> from either becomes a \<open>RuntimeError\<close>.
\<close>

definition open_for_write :: "string \<Rightarrow> world \<Rightarrow> world" where
  "open_for_write folder w = w\<lparr>disk := (disk w)(folder := Truncated True)\<rparr>"

definition write_partly :: "string \<Rightarrow> bool \<Rightarrow> world \<Rightarrow> world" where
  "write_partly folder decodable w = w\<lparr>disk := (disk w)(folder := Truncated decodable)\<rparr>"

definition dump_and_close :: "string \<Rightarrow> world \<Rightarrow> world" where
  "dump_and_close folder w = w\<lparr>disk := (disk w)(folder := Complete (tracker_data w))\<rparr>"

definition save :: "env \<Rightarrow> string \<Rightarrow> world \<Rightarrow> exn option \<times> world" where
  "save E folder w =
     (let w1 = w\<lparr>saves := saves w + 1\<rparr>
      in case save_io E (saves w) of
           OpenFails e \<Rightarrow> (Some (RuntimeError (''Impossibile salvare tracker: '' @ e)), w1)
         | WriteFails e decodable \<Rightarrow>
             (Some (RuntimeError (''Impossibile salvare tracker: '' @ e)),
              write_partly folder decodable (open_for_write folder w1))
         | IoOk \<Rightarrow> (None, dump_and_close folder (open_for_write folder w1)))"

text \<open>The methods of a tracker take its \<open>base_path\<close>, the folder of its file.\<close>

definition mark_uploaded ::
  "env \<Rightarrow> string \<Rightarrow> string \<Rightarrow> int \<Rightarrow> RowData \<Rightarrow> string \<Rightarrow> (string \<times> string) list \<Rightarrow> world
   \<Rightarrow> exn option \<times> world" where
  "mark_uploaded E base_path file_path row_index row_data shipment_id response_data w =
     (let key = generate_row_key E file_path row_index row_data;
          upload_record = \<lparr>rec_file = path_name E file_path, rec_row = row_index,
                           rec_shipment_id = shipment_id,
                           rec_ragione_sociale = ragione_sociale row_data,
                           rec_uploaded_at = now_isoformat E (clock w),
                           rec_response = (if response_data \<noteq> [] then Some response_data
                                           else None)\<rparr>;
          entry = UploadAction key (now_isoformat E (clock w + 1)) shipment_id;
          d = tracker_data w;
          w1 = w\<lparr>clock := clock w + 2,
                 tracker_data := d\<lparr>uploads := (uploads d)(key \<mapsto> upload_record),
                                   history := history d @ [entry]\<rparr>\<rparr>
      in save E base_path w1)"

section \<open>The transport client (gls\_client.py)\<close>

text \<open>\<open>_get_client\<close>: the SOAP client is built on first use and kept.\<close>

definition get_client :: "env \<Rightarrow> world \<Rightarrow> exn option \<times> world" where
  "get_client E w =
     (if client_session w then (None, w)
      else (case connect E (connects w) of
              Some e \<Rightarrow> (Some (GLSClientError (''Impossibile connettersi a GLS: '' @ e)),
                         w\<lparr>connects := connects w + 1\<rparr>)
            | None \<Rightarrow> (None, w\<lparr>connects := connects w + 1, client_session := True\<rparr>)))"

text \<open>
  The \<open>for attempt in range(GLS_RETRY_ATTEMPTS)\<close> loop of \<open>_execute_with_retry\<close>, from
  \<open>attempt\<close> on, with \<open>last_error\<close> as it stands.
\<close>

function retry_loop ::
  "config \<Rightarrow> env \<Rightarrow> gls_request \<Rightarrow> nat \<Rightarrow> string option \<Rightarrow> world
   \<Rightarrow> (exn + response_body) \<times> world" where
  "retry_loop C E operation attempt last_error w =
     (if attempt < GLS_RETRY_ATTEMPTS C then
        (let w1 = w\<lparr>calls := calls w @ [operation]\<rparr>;
             failed = (\<lambda>e. retry_loop C E operation (attempt + 1) (Some e)
                         (if attempt < GLS_RETRY_ATTEMPTS C - 1
                          then w1\<lparr>sleeps := sleeps w1 @ [GLS_RETRY_DELAY C * 2 ^ attempt]\<rparr>
                          else w1))
         in case remote E (length (calls w)) operation of
              Returns body \<Rightarrow> (Inr body, w1)
            | Fault e \<Rightarrow> failed e
            | TransportError e \<Rightarrow> failed e
            | OtherException e \<Rightarrow> (Inl (GLSClientError (''Errore imprevisto: '' @ e)), w1))
      else (Inl (GLSClientError (''Fallito dopo '' @ str_nat (GLS_RETRY_ATTEMPTS C)
                                 @ '' tentativi: ''
                                 @ (case last_error of None \<Rightarrow> ''None'' | Some e \<Rightarrow> e))), w))"
  by pat_completeness auto
termination
  by (relation "measure (\<lambda>(C, E, operation, attempt, last_error, w).
                           GLS_RETRY_ATTEMPTS C - attempt)") auto

declare retry_loop.simps [simp del]

definition execute_with_retry ::
  "config \<Rightarrow> env \<Rightarrow> gls_request \<Rightarrow> world \<Rightarrow> (exn + response_body) \<times> world" where
  "execute_with_retry C E operation w =
     (case get_client E w of
        (Some e, w1) \<Rightarrow> (Inl e, w1)
      | (None, w1) \<Rightarrow> retry_loop C E operation 0 None w1)"

text \<open>\<open>root.findall(".//name")\<close>: the descendants of the root with that tag, in document
  order.\<close>

fun descendants :: "xml \<Rightarrow> xml list" where
  "descendants (Element t x cs) = concat (map (\<lambda>c. c # descendants c) cs)"

definition findall :: "string \<Rightarrow> xml \<Rightarrow> xml list" where
  "findall name root_el = filter (\<lambda>e. x_tag e = name) (descendants root_el)"

text \<open>The body of \<open>for child in parcel_result\<close>.\<close>

definition parse_child :: "GLSResponse \<Rightarrow> xml \<Rightarrow> GLSResponse" where
  "parse_child response child =
     (let tag = lower (x_tag child); text_v = x_text child
      in if tag \<in> set [''numerospedizione'', ''parcelid'', ''sped'']
         then response\<lparr>r_numero_spedizione := text_v\<rparr>
         else if tag \<in> set [''esito'', ''result''] then response\<lparr>r_esito := text_v\<rparr>
         else if tag \<in> set [''errore'', ''error'', ''errormessage'']
         then response\<lparr>r_error_message := text_v\<rparr>
         else if tag \<in> set [''pdf'', ''pdfbase64'', ''label'']
         then response\<lparr>r_pdf_base64 := text_v\<rparr>
         else if tag = ''bda'' then response\<lparr>r_bda := text_v\<rparr>
         else response)"

text \<open>The body of \<open>for i, parcel_result in enumerate(parcel_results)\<close>.\<close>

definition parse_entry :: "GLSParcel list \<Rightarrow> nat \<Rightarrow> xml \<Rightarrow> GLSResponse" where
  "parse_entry parcels i parcel_result =
     (let response = new_GLSResponse;
          response = (if i < length parcels then response\<lparr>r_bda := p_bda (parcels ! i)\<rparr>
                      else response)
      in foldl parse_child response (x_children parcel_result))"

definition parse_add_parcel_response :: "response_body \<Rightarrow> GLSParcel list \<Rightarrow> GLSResponse list" where
  "parse_add_parcel_response result parcels =
     (case result of
        NotWellFormed raw e \<Rightarrow>
          map (\<lambda>parcel. new_GLSResponse\<lparr>r_bda := p_bda parcel, r_esito := ''KO'',
                                        r_error_message := ''XML non valido: '' @ e\<rparr>) parcels
      | WellFormed raw root_el ser \<Rightarrow>
          (let parcel_results = (if findall ''Parcel'' root_el \<noteq> [] then findall ''Parcel'' root_el
                                 else findall ''parcel'' root_el);
               responses = map (\<lambda>(i, parcel_result). parse_entry parcels i parcel_result)
                             (enumerate 0 parcel_results)
           in if responses = [] then
                (let error_text = (if x_text root_el \<noteq> [] then x_text root_el else ser)
                 in map (\<lambda>parcel. new_GLSResponse\<lparr>r_bda := p_bda parcel, r_esito := ''KO'',
                          r_error_message := ''Risposta non parsabile: '' @ take 100 error_text\<rparr>)
                      parcels)
              else responses))"

text \<open>\<open>add_parcels\<close>. The wire payload is a function of the parcels, so the request is
  logged with the parcels themselves.\<close>

definition add_parcels ::
  "config \<Rightarrow> env \<Rightarrow> GLSCredentials \<Rightarrow> GLSParcel list \<Rightarrow> bool \<Rightarrow> world
   \<Rightarrow> (exn + GLSResponse list) \<times> world" where
  "add_parcels C E credentials parcels generate_pdf w =
     (let w = w\<lparr>submissions := submissions w @ [parcels]\<rparr>
      in if length parcels > GLS_MAX_PARCELS_PER_BATCH C
         then (Inl (GLSClientError (''Massimo '' @ str_nat (GLS_MAX_PARCELS_PER_BATCH C)
                                    @ '' spedizioni per batch'')), w)
         else if parcels = [] then (Inr [], w)
         else (case execute_with_retry C E (AddParcel credentials parcels generate_pdf) w of
                 (Inl e, w1) \<Rightarrow> (Inl e, w1)
               | (Inr result, w1) \<Rightarrow> (Inr (parse_add_parcel_response result parcels), w1)))"

text \<open>\<open>root.findtext(".//name")\<close>: the text of the first match, \<open>None\<close> without a match.\<close>

definition findtext :: "string \<Rightarrow> xml \<Rightarrow> string option" where
  "findtext name root_el = (case findall name root_el of [] \<Rightarrow> None | e # es \<Rightarrow> Some (x_text e))"

text \<open>\<open>a or b\<close> on optional strings: \<open>a\<close> when it is neither \<open>None\<close> nor empty.\<close>

definition or_else :: "string option \<Rightarrow> string \<Rightarrow> string" where
  "or_else a b = (case a of None \<Rightarrow> b | Some s \<Rightarrow> if s \<noteq> [] then s else b)"

record close_result =
  cr_success :: bool
  cr_esito :: string
  cr_error :: string

definition parse_close_work_day_response :: "response_body \<Rightarrow> close_result" where
  "parse_close_work_day_response result =
     (case result of
        NotWellFormed raw e \<Rightarrow>
          \<lparr>cr_success = False, cr_esito = ''KO'', cr_error = ''Errore parsing risposta: '' @ e\<rparr>
      | WellFormed raw root_el ser \<Rightarrow>
          (let esito = or_else (findtext ''Esito'' root_el) (or_else (findtext ''esito'' root_el) []);
               errore = or_else (findtext ''Errore'' root_el) (or_else (findtext ''errore'' root_el) [])
           in \<lparr>cr_success = (upper esito = ''OK''), cr_esito = esito, cr_error = errore\<rparr>))"

definition close_work_day ::
  "config \<Rightarrow> env \<Rightarrow> GLSCredentials \<Rightarrow> world \<Rightarrow> (exn + close_result) \<times> world" where
  "close_work_day C E credentials w =
     (case execute_with_retry C E (CloseWorkDay credentials) w of
        (Inl e, w1) \<Rightarrow> (Inl e, w1)
      | (Inr result, w1) \<Rightarrow> (Inr (parse_close_work_day_response result), w1))"

section \<open>The batch orchestrator (gls\_processor.py)\<close>

text \<open>
  \<open>_get_tracker\<close>: a tracker for the folder of the file is created, loading the file of
  that folder, unless the processor already holds the tracker of that folder. When the
  load raises, the processor keeps what it held.
\<close>

definition get_tracker :: "env \<Rightarrow> string \<Rightarrow> world \<Rightarrow> exn option \<times> world" where
  "get_tracker E file_path w =
     (let folder = path_parent E file_path
      in if tracker_base w = None \<or> tracker_base w \<noteq> Some folder
         then (case load (disk w folder) of
                 Inl e \<Rightarrow> (Some e, w)
               | Inr d \<Rightarrow> (None, w\<lparr>tracker_base := Some folder, tracker_data := d\<rparr>))
         else (None, w))"

definition build_note :: "RowData \<Rightarrow> string" where
  "build_note row_data =
     (let parts = [];
          progressivo_v = strip (progressivo row_data);
          parts = (if progressivo_v \<noteq> [] then parts @ [progressivo_v] else parts);
          telefono = (if telefono_cell row_data \<noteq> [] then telefono_cell row_data
                      else if telefono_fisso row_data \<noteq> [] then telefono_fisso row_data
                      else []);
          parts = (if telefono \<noteq> [] then
                     (let telefono = strip (replace '' '' [] (replace ''+39'' [] telefono))
                      in if telefono \<noteq> [] then parts @ [telefono] else parts)
                   else parts);
          indicazioni_v = strip (indicazioni row_data);
          parts = (if indicazioni_v \<noteq> [] then parts @ [indicazioni_v] else parts);
          note_v = join '' - '' parts
      in if length note_v > 40 then take 40 note_v else note_v)"

definition create_parcel :: "RowData \<Rightarrow> int \<Rightarrow> rat \<Rightarrow> GLSParcel option" where
  "create_parcel row_data colli peso =
     (if ragione_sociale row_data = [] \<or> indirizzo row_data = [] then None
      else (let note_v = build_note row_data;
                cellulare = (if telefono_cell row_data \<noteq> [] then telefono_cell row_data
                             else if telefono_fisso row_data \<noteq> [] then telefono_fisso row_data
                             else []);
                bda = progressivo row_data
            in Some (new_GLSParcel (ragione_sociale row_data) (indirizzo row_data)
                       (citta row_data) (cap row_data) (provincia row_data) colli peso note_v
                       (email row_data) cellulare bda)))"

text \<open>
  The loop \<open>for i, response in enumerate(responses)\<close> of \<open>_upload_batches\<close>, from index
  \<open>i\<close> on. The first component of the result is the exception that leaves the loop, if
  any: \<open>batch_indices[i]\<close> raises \<open>IndexError\<close> out of range, and \<open>mark_uploaded\<close> may
  raise \<open>RuntimeError\<close>.
\<close>

fun reconcile ::
  "env \<Rightarrow> string \<Rightarrow> string \<Rightarrow> (int \<times> RowData) list \<Rightarrow> nat \<Rightarrow> GLSResponse list
   \<Rightarrow> GLSUploadResult \<Rightarrow> world \<Rightarrow> exn option \<times> GLSUploadResult \<times> world" where
  "reconcile E base_path file_path batch_indices i [] result w = (None, result, w)"
| "reconcile E base_path file_path batch_indices i (response # rest) result w =
     (if i < length batch_indices then
        (let (idx, row_data) = batch_indices ! i
         in if is_success response then
              (case mark_uploaded E base_path file_path idx row_data
                      (r_numero_spedizione response) [(''esito'', r_esito response)] w of
                 (Some e, w1) \<Rightarrow> (Some e, add_success response result, w1)
               | (None, w1) \<Rightarrow>
                   reconcile E base_path file_path batch_indices (i + 1) rest
                     (add_success response result) w1)
            else reconcile E base_path file_path batch_indices (i + 1) rest
                   (add_failure (if r_error_message response \<noteq> [] then r_error_message response
                                 else ''Errore sconosciuto'')
                      (r_bda response) result) w)
      else (Some IndexError, result, w))"

text \<open>The \<open>try\<close> statement of \<open>_upload_batches\<close> for one batch: only a \<open>GLSClientError\<close> is
  caught, and then every row of the batch is a failure.\<close>

definition upload_batch ::
  "config \<Rightarrow> env \<Rightarrow> GLSCredentials \<Rightarrow> string \<Rightarrow> string \<Rightarrow> bool \<Rightarrow> GLSParcel list
   \<Rightarrow> (int \<times> RowData) list \<Rightarrow> GLSUploadResult \<Rightarrow> world
   \<Rightarrow> exn option \<times> GLSUploadResult \<times> world" where
  "upload_batch C E credentials base_path file_path generate_pdf batch batch_indices result w =
     (case add_parcels C E credentials batch generate_pdf w of
        (Inr responses, w1) \<Rightarrow>
          reconcile E base_path file_path batch_indices 0 responses result w1
      | (Inl (GLSClientError e), w1) \<Rightarrow>
          (None, foldl (\<lambda>res (idx, row_data). add_failure e (str_int idx) res) result
                   batch_indices, w1)
      | (Inl other, w1) \<Rightarrow> (Some other, result, w1))"

text \<open>The loop \<open>for batch_start in range(0, total_parcels, GLS_MAX_PARCELS_PER_BATCH)\<close>,
  from \<open>batch_start\<close> on.\<close>

function upload_batches_from ::
  "config \<Rightarrow> env \<Rightarrow> GLSCredentials \<Rightarrow> string \<Rightarrow> string \<Rightarrow> bool \<Rightarrow> GLSParcel list
   \<Rightarrow> (int \<times> RowData) list \<Rightarrow> nat \<Rightarrow> GLSUploadResult \<Rightarrow> world
   \<Rightarrow> exn option \<times> GLSUploadResult \<times> world" where
  "upload_batches_from C E credentials base_path file_path generate_pdf parcels row_indices
       batch_start result w =
     (if 0 < GLS_MAX_PARCELS_PER_BATCH C \<and> batch_start < length parcels then
        (let total_parcels = length parcels;
             batch_end = min (batch_start + GLS_MAX_PARCELS_PER_BATCH C) total_parcels;
             batch = take (batch_end - batch_start) (drop batch_start parcels);
             batch_indices = take (batch_end - batch_start) (drop batch_start row_indices)
         in case upload_batch C E credentials base_path file_path generate_pdf batch
                   batch_indices result w of
              (Some e, result1, w1) \<Rightarrow> (Some e, result1, w1)
            | (None, result1, w1) \<Rightarrow>
                upload_batches_from C E credentials base_path file_path generate_pdf parcels
                  row_indices (batch_start + GLS_MAX_PARCELS_PER_BATCH C) result1 w1)
      else (None, result, w))"
  by pat_completeness auto
termination
  by (relation "measure (\<lambda>(C, E, credentials, base_path, file_path, generate_pdf, parcels,
                            row_indices, batch_start, result, w).
                           length parcels - batch_start)") auto

declare upload_batches_from.simps [simp del]

text \<open>\<open>_upload_batches\<close>; \<open>range\<close> raises \<open>ValueError\<close> on a zero step.\<close>

definition upload_batches ::
  "config \<Rightarrow> env \<Rightarrow> GLSCredentials \<Rightarrow> string \<Rightarrow> string \<Rightarrow> bool \<Rightarrow> GLSParcel list
   \<Rightarrow> (int \<times> RowData) list \<Rightarrow> GLSUploadResult \<Rightarrow> world
   \<Rightarrow> exn option \<times> GLSUploadResult \<times> world" where
  "upload_batches C E credentials base_path file_path generate_pdf parcels row_indices result w =
     (if GLS_MAX_PARCELS_PER_BATCH C = 0 then (Some ValueError, result, w)
      else upload_batches_from C E credentials base_path file_path generate_pdf parcels
             row_indices 0 result w)"

text \<open>
  The loop \<open>for idx, row in df.iterrows()\<close> of \<open>process_file\<close>, on the rows as
  \<open>_extract_row_data\<close> gives them. It reads the ledger and changes nothing but
  \<open>result\<close>, \<open>parcels_to_upload\<close> and \<open>row_indices\<close>.
\<close>

fun prepare ::
  "env \<Rightarrow> bool \<Rightarrow> ledger \<Rightarrow> string \<Rightarrow> int \<Rightarrow> rat \<Rightarrow> (int \<times> RowData) list
   \<Rightarrow> GLSUploadResult \<times> GLSParcel list \<times> (int \<times> RowData) list
   \<Rightarrow> GLSUploadResult \<times> GLSParcel list \<times> (int \<times> RowData) list" where
  "prepare E skip_uploaded data file_path colli peso [] acc = acc"
| "prepare E skip_uploaded data file_path colli peso ((idx, row_data) # rows)
       (result, parcels_to_upload, row_indices) =
     (if skip_uploaded \<and> is_uploaded E data file_path idx row_data then
        prepare E skip_uploaded data file_path colli peso rows
          (add_skip (''Riga '' @ str_int idx @ '' gi'' @ [CHR 0xE0] @ '' caricata'') result,
           parcels_to_upload, row_indices)
      else (case create_parcel row_data colli peso of
              Some parcel \<Rightarrow>
                prepare E skip_uploaded data file_path colli peso rows
                  (result, parcels_to_upload @ [parcel], row_indices @ [(idx, row_data)])
            | None \<Rightarrow>
                prepare E skip_uploaded data file_path colli peso rows
                  (add_failure ''Dati insufficienti'' (str_int idx) result,
                   parcels_to_upload, row_indices)))"

text \<open>
  \<open>process_file\<close> on a file of a recognised format, given the rows read from it. The
  processor is its credentials and its \<open>skip_uploaded\<close> flag; no progress callback is
  set. The result is the exception that ends the run, or the \<open>GLSUploadResult\<close>.
\<close>

definition process_file ::
  "config \<Rightarrow> env \<Rightarrow> GLSCredentials \<Rightarrow> bool \<Rightarrow> string \<Rightarrow> int \<Rightarrow> rat \<Rightarrow> bool \<Rightarrow> bool
   \<Rightarrow> (int \<times> RowData) list \<Rightarrow> world \<Rightarrow> (exn + GLSUploadResult) \<times> world" where
  "process_file C E credentials skip_uploaded file_path colli peso generate_pdf close_workday
       rows w =
     (case get_tracker E file_path w of
        (Some e, w) \<Rightarrow> (Inl e, w)
      | (None, w) \<Rightarrow>
     (let result = new_GLSUploadResult;
          base_path = path_parent E file_path;
          result = result\<lparr>u_total := length rows\<rparr>;
          (result, parcels_to_upload, row_indices) =
             prepare E skip_uploaded (tracker_data w) file_path colli peso rows (result, [], []);
          (raised, result, w) =
             (if parcels_to_upload \<noteq> []
              then upload_batches C E credentials base_path file_path generate_pdf
                     parcels_to_upload row_indices result w
              else (None, result, w))
      in case raised of
           Some e \<Rightarrow> (Inl e, w)
         | None \<Rightarrow>
             if close_workday \<and> u_uploaded result > 0 then
               (case close_work_day C E credentials w of
                  (Inr cr, w1) \<Rightarrow>
                    (Inr (if \<not> cr_success cr
                          then result\<lparr>u_errors := u_errors result
                                                     @ [''CloseWorkDay: '' @ cr_error cr]\<rparr>
                          else result), w1)
                | (Inl (GLSClientError e), w1) \<Rightarrow>
                    (Inr (result\<lparr>u_errors := u_errors result
                                               @ [''CloseWorkDay fallito: '' @ e]\<rparr>), w1)
                | (Inl other, w1) \<Rightarrow> (Inl other, w1))
             else (Inr result, w)))"

text \<open>A new process: nothing is connected, no tracker is held, the files are as given.\<close>

definition new_world :: "(string \<Rightarrow> file_state) \<Rightarrow> world" where
  "new_world files = \<lparr>client_session = False, connects = 0, submissions = [], calls = [],
                       sleeps = [],
                       tracker_base = None, tracker_data = empty_ledger, disk = files,
                       saves = 0, clock = 0\<rparr>"

section \<open>Predicates and inputs used in the statements\<close>

definition is_digit :: "char \<Rightarrow> bool" where
  "is_digit c = (c \<in> set digits)"

definition is_upper_letter :: "char \<Rightarrow> bool" where
  "is_upper_letter c = (c \<in> set ascii_uppercase)"

definition is_letter :: "char \<Rightarrow> bool" where
  "is_letter c = (c \<in> set ascii_lowercase \<or> c \<in> set ascii_uppercase)"

text \<open>A parcel as \<open>_create_parcel\<close> may pass it to the constructor: a recipient name of 66
  characters, a postal code read from a numeric cell, a province in lower case.\<close>

definition parcel_example :: GLSParcel where
  "parcel_example =
     \<lparr>p_ragione_sociale = ''Ferramenta Rossi di Rossi Mario e Figli Societa in nome collettivo'',
      p_indirizzo = ''Via Roma 1'', p_localita = ''Roma'', p_zipcode = ''100'',
      p_provincia = ''rm'', p_colli = 1, p_peso = 3, p_note = [], p_email = [],
      p_cellulare = [], p_bda = ''7'', p_contrassegno = 0, p_importo_assicurato = 0\<rparr>"

text \<open>The entries \<open>_parse_add_parcel_response\<close> iterates over, the \<open>bda\<close> children of an
  entry, and the failure response it builds for a parcel.\<close>

definition bda_fields :: "xml \<Rightarrow> xml list" where
  "bda_fields entry = filter (\<lambda>c. lower (x_tag c) = ''bda'') (x_children entry)"

definition parcel_entries :: "xml \<Rightarrow> xml list" where
  "parcel_entries root_el = (if findall ''Parcel'' root_el \<noteq> [] then findall ''Parcel'' root_el
                             else findall ''parcel'' root_el)"

definition failure_response :: "string \<Rightarrow> GLSParcel \<Rightarrow> GLSResponse" where
  "failure_response msg parcel =
     \<lparr>r_numero_spedizione = [], r_esito = ''KO'', r_pdf_base64 = [], r_error_message = msg,
      r_bda = p_bda parcel\<rparr>"


section \<open>A run of three rows with two parcels per batch\<close>

text \<open>
  The file \<open>/dati/ordini_VALIDATO.xlsx\<close> with three rows. The service answers a batch of
  two parcels with two accepted entries and times out on every other call; the paths are
  resolved as pathlib does for this file, the digest and the clock are fixed stand-ins.
\<close>

definition file_scenario :: string where
  "file_scenario = ''/dati/ordini_VALIDATO.xlsx''"

definition config_scenario :: config where
  "config_scenario = config_py\<lparr>GLS_MAX_PARCELS_PER_BATCH := 2\<rparr>"

definition credentials_scenario :: GLSCredentials where
  "credentials_scenario = \<lparr>sede = ''R1'', codice_cliente = ''12345'', password = ''segreto'',
                            codice_contratto = ''79''\<rparr>"

definition row_scenario :: "string \<Rightarrow> string \<Rightarrow> RowData" where
  "row_scenario name seq =
     \<lparr>indirizzo = ''Via Roma 1'', cap = ''00100'', citta = ''Roma'', provincia = ''RM'',
      ragione_sociale = name, progressivo = seq, telefono_fisso = [],
      telefono_cell = ''+39 333 1234567'', email = [], indicazioni = []\<rparr>"

definition rows_scenario :: "(int \<times> RowData) list" where
  "rows_scenario = [(0, row_scenario ''Alfa Srl'' ''1''), (1, row_scenario ''Beta Spa'' ''2''),
                    (2, row_scenario ''Gamma Snc'' ''3'')]"

definition accepted :: "string \<Rightarrow> xml" where
  "accepted shipment = Element ''Parcel'' []
     [Element ''NumeroSpedizione'' shipment [], Element ''Esito'' ''OK'' []]"

definition body_two_accepted :: response_body where
  "body_two_accepted =
     WellFormed
       (''<Info><Parcel><NumeroSpedizione>580000001</NumeroSpedizione><Esito>OK</Esito></Parcel>''
        @ ''<Parcel><NumeroSpedizione>580000002</NumeroSpedizione><Esito>OK</Esito></Parcel></Info>'')
       (Element ''Info'' [] [accepted ''580000001'', accepted ''580000002''])
       (''<Info><Parcel><NumeroSpedizione>580000001</NumeroSpedizione><Esito>OK</Esito></Parcel>''
        @ ''<Parcel><NumeroSpedizione>580000002</NumeroSpedizione><Esito>OK</Esito></Parcel></Info>'')"

definition env_scenario :: env where
  "env_scenario =
     \<lparr>path_stem = (\<lambda>p. ''ordini_VALIDATO''),
      path_name = (\<lambda>p. ''ordini_VALIDATO.xlsx''),
      path_parent = (\<lambda>p. ''/dati''),
      md5_hexdigest = (\<lambda>s. ''9e107d9d372bb6826bd81d3542a419d6''),
      now_isoformat = (\<lambda>n. ''2024-05-06T10:00:00''),
      connect = (\<lambda>n. None),
      remote = (\<lambda>n request.
                  case request of
                    AddParcel c parcels pdf \<Rightarrow>
                      if length parcels = 2 then Returns body_two_accepted
                      else TransportError ''timeout''
                  | CloseWorkDay c \<Rightarrow> TransportError ''timeout''),
      save_io = (\<lambda>n. IoOk)\<rparr>"

definition run_scenario :: "(exn + GLSUploadResult) \<times> world" where
  "run_scenario =
     process_file config_scenario env_scenario credentials_scenario True file_scenario 1 3
       False False rows_scenario (new_world (\<lambda>folder. Missing))"






section \<open>Batches\<close>

text \<open>The slices \<open>parcels[batch_start:batch_end]\<close> that the loop of \<open>_upload_batches\<close>
  forms from \<open>batch_start\<close> on, for a batch size \<open>m\<close>.\<close>

function batches :: "nat \<Rightarrow> 'a list \<Rightarrow> nat \<Rightarrow> 'a list list" where
  "batches m xs batch_start =
     (if 0 < m \<and> batch_start < length xs
      then take (min (batch_start + m) (length xs) - batch_start) (drop batch_start xs)
           # batches m xs (batch_start + m)
      else [])"
  by pat_completeness auto
termination
  by (relation "measure (\<lambda>(m, xs, batch_start). length xs - batch_start)") auto

declare batches.simps [simp del]


text \<open>Four rows for a run with two full batches, and the result after every row of a
  batch has been recorded as failed with the text \<open>e\<close>.\<close>

definition rows_four :: "(int \<times> RowData) list" where
  "rows_four = rows_scenario @ [(3, row_scenario ''Delta Sas'' ''4'')]"

definition parcels_four :: "GLSParcel list" where
  "parcels_four = List.map_filter (\<lambda>(idx, row_data). create_parcel row_data 1 3) rows_four"

definition upload_four :: "exn option \<times> GLSUploadResult \<times> world" where
  "upload_four =
     upload_batches config_scenario env_scenario credentials_scenario ''/dati'' file_scenario
       False parcels_four rows_four new_GLSUploadResult
       (snd (get_tracker env_scenario file_scenario (new_world (\<lambda>folder. Missing))))"

definition failed_rows :: "string \<Rightarrow> (int \<times> RowData) list \<Rightarrow> GLSUploadResult \<Rightarrow> GLSUploadResult" where
  "failed_rows e batch_indices result =
     result\<lparr>u_failed := u_failed result + length batch_indices,
            u_errors := u_errors result
              @ map (\<lambda>(idx, row_data). ''ERRORE '' @ str_int idx @ '': '' @ e) batch_indices\<rparr>"


text \<open>The state in which the run of the scenario starts.\<close>

definition third_batch_start :: world where
  "third_batch_start =
     snd (get_tracker env_scenario file_scenario (new_world (\<lambda>folder. Missing)))"


text \<open>The same service with a disk that fills up while the ledger is written.\<close>

definition env_save_fails :: env where
  "env_save_fails =
     env_scenario\<lparr>save_io := (\<lambda>n. WriteFails ''[Errno 28] No space left on device'' True)\<rparr>"

definition upload_four_unsaved :: "exn option \<times> GLSUploadResult \<times> world" where
  "upload_four_unsaved =
     upload_batches config_scenario env_save_fails credentials_scenario ''/dati'' file_scenario
       False parcels_four rows_four new_GLSUploadResult third_batch_start"


text \<open>Two response bodies: one without parcel entries, one whose first entry echoes a
  reference.\<close>

definition body_text_only :: response_body where
  "body_text_only = WellFormed ''<Info>credenziali errate</Info>''
                      (Element ''Info'' ''credenziali errate'' [])
                      ''<Info>credenziali errate</Info>''"

definition root_echo :: xml where
  "root_echo = Element ''Info'' []
        [Element ''Parcel'' [] [Element ''Esito'' ''OK'' [], Element ''Bda'' ''X9'' []],
         Element ''Parcel'' [] [Element ''Esito'' ''KO'' []]]"

definition body_echo :: response_body where
  "body_echo = WellFormed
     ''<Info><Parcel><Esito>OK</Esito><Bda>X9</Bda></Parcel><Parcel><Esito>KO</Esito></Parcel></Info>''
     root_echo
     ''<Info><Parcel><Esito>OK</Esito><Bda>X9</Bda></Parcel><Parcel><Esito>KO</Esito></Parcel></Info>''"





section \<open>Writing the ledger\<close>

text \<open>What the tracker file holds before \<open>_save\<close>, after its \<open>open\<close> and after its
  \<open>with\<close> block: the states a process killed during \<open>_save\<close> can leave.\<close>

definition save_file_states :: "string \<Rightarrow> world \<Rightarrow> file_state list" where
  "save_file_states folder w =
     [disk w folder,
      disk (open_for_write folder w) folder,
      disk (dump_and_close folder (open_for_write folder w)) folder]"

text \<open>A ledger with the record of the first row, a processor that holds it with the file
  complete on disk, and the recording of the second row from there.\<close>

definition ledger_one :: ledger where
  "ledger_one =
     \<lparr>uploads = [''ordini_VALIDATO:0:9e107d9d'' \<mapsto>
                   \<lparr>rec_file = ''ordini_VALIDATO.xlsx'', rec_row = 0,
                    rec_shipment_id = ''580000001'', rec_ragione_sociale = ''Alfa Srl'',
                    rec_uploaded_at = ''2024-05-06T10:00:00'',
                    rec_response = Some [(''esito'', ''OK'')]\<rparr>],
      history = [UploadAction ''ordini_VALIDATO:0:9e107d9d'' ''2024-05-06T10:00:00''
                   ''580000001'']\<rparr>"

definition world_one :: world where
  "world_one = (new_world (\<lambda>folder. Complete ledger_one))
                 \<lparr>tracker_base := Some ''/dati'', tracker_data := ledger_one\<rparr>"

definition mark_second :: "env \<Rightarrow> exn option \<times> world" where
  "mark_second E = mark_uploaded E ''/dati'' file_scenario 1 (row_scenario ''Beta Spa'' ''2'')
                     ''580000002'' [(''esito'', ''OK'')] world_one"


section \<open>Rows and keys of a run\<close>

text \<open>
  With \<open>skip_uploaded\<close> set, the rows that the loop of \<open>process_file\<close> skips and the rows
  whose parcels it collects, for the ledger it reads; the parcels of rows; and the keys
  of rows.
\<close>

definition already_uploaded ::
  "env \<Rightarrow> ledger \<Rightarrow> string \<Rightarrow> (int \<times> RowData) list \<Rightarrow> (int \<times> RowData) list" where
  "already_uploaded E data file_path rows =
     filter (\<lambda>(idx, row_data). is_uploaded E data file_path idx row_data) rows"

definition to_submit ::
  "env \<Rightarrow> ledger \<Rightarrow> string \<Rightarrow> int \<Rightarrow> rat \<Rightarrow> (int \<times> RowData) list \<Rightarrow> (int \<times> RowData) list" where
  "to_submit E data file_path colli peso rows =
     filter (\<lambda>(idx, row_data). \<not> is_uploaded E data file_path idx row_data
                               \<and> create_parcel row_data colli peso \<noteq> None) rows"

definition parcels_of :: "int \<Rightarrow> rat \<Rightarrow> (int \<times> RowData) list \<Rightarrow> GLSParcel list" where
  "parcels_of colli peso rows =
     List.map_filter (\<lambda>(idx, row_data). create_parcel row_data colli peso) rows"

definition keys_of :: "env \<Rightarrow> string \<Rightarrow> (int \<times> RowData) list \<Rightarrow> string set" where
  "keys_of E file_path rows =
     (\<lambda>(idx, row_data). generate_row_key E file_path idx row_data) ` set rows"


section \<open>Strings\<close>

text \<open>The equations that evaluate a run on concrete inputs.\<close>

lemmas run_defs =
  upload_batches_def upload_batches_from.simps upload_batch_def add_parcels_def
  execute_with_retry_def get_client_def retry_loop.simps parse_add_parcel_response_def
  parse_entry_def parse_child_def findall_def reconcile.simps mark_uploaded_def save_def
  open_for_write_def write_partly_def dump_and_close_def generate_row_key_def is_success_def add_success_def
  add_failure_def add_skip_def new_GLSResponse_def new_GLSUploadResult_def get_tracker_def
  new_world_def load_def empty_ledger_def env_scenario_def config_scenario_def config_py_def
  credentials_scenario_def file_scenario_def rows_scenario_def
  row_scenario_def create_parcel_def body_two_accepted_def accepted_def
  upper_def upper_char_def lower_def lower_char_def ascii_lowercase_def ascii_uppercase_def
  latin1_lowercase_def latin1_uppercase_def List.map_filter_def Let_def enumerate_eq_zip

lemma upper_char_O: "upper_char a = CHR ''O'' \<longleftrightarrow> a = CHR ''O'' \<or> a = CHR ''o''"
  by (simp add: upper_char_def ascii_lowercase_def ascii_uppercase_def)

lemma upper_char_K: "upper_char a = CHR ''K'' \<longleftrightarrow> a = CHR ''K'' \<or> a = CHR ''k''"
  by (simp add: upper_char_def ascii_lowercase_def ascii_uppercase_def)

lemma upper_eq_OK: "upper s = ''OK'' \<longleftrightarrow> s \<in> {''OK'', ''Ok'', ''oK'', ''ok''}"
proof (cases s)
  case Nil
  then show ?thesis by (simp add: upper_def)
next
  case (Cons a t)
  show ?thesis
  proof (cases t)
    case Nil
    with Cons show ?thesis by (simp add: upper_def)
  next
    case (Cons b u)
    with \<open>s = a # t\<close> show ?thesis
      by (cases u) (auto simp: upper_def upper_char_O upper_char_K)
  qed
qed

lemma upper_char_not_lower: "upper_char c \<notin> set ascii_lowercase"
  by (cases c) (simp add: upper_char_def ascii_lowercase_def ascii_uppercase_def)

lemma upper_char_letter: "is_letter c \<Longrightarrow> is_upper_letter (upper_char c)"
  unfolding is_letter_def is_upper_letter_def
  by (auto simp add: upper_char_def ascii_lowercase_def ascii_uppercase_def)

lemma length_zfill: "length (zfill n s) = max n (length s)"
  by (auto simp: zfill_def split: list.splits)

lemma zfill_digits: "list_all is_digit s \<Longrightarrow> list_all is_digit (zfill n s)"
  by (auto simp: zfill_def is_digit_def digits_def list_all_iff split: list.splits)

lemma list_all_take: "list_all P xs \<Longrightarrow> list_all P (take n xs)"
  by (auto simp: list_all_iff dest: in_set_takeD)

section \<open>Parcels and responses\<close>

lemma post_init_fields:
  "p_ragione_sociale (post_init p) = take 35 (p_ragione_sociale p)"
  "p_indirizzo (post_init p) = take 35 (p_indirizzo p)"
  "p_note (post_init p) = take 40 (p_note p)"
  "p_provincia (post_init p) = upper (take 2 (p_provincia p))"
  "p_zipcode (post_init p) = take 5 (zfill 5 (strip (p_zipcode p)))"
  by (simp_all add: post_init_def Let_def)

lemma post_init_other:
  "p_localita (post_init p) = p_localita p" "p_colli (post_init p) = p_colli p"
  "p_peso (post_init p) = p_peso p" "p_email (post_init p) = p_email p"
  "p_cellulare (post_init p) = p_cellulare p" "p_bda (post_init p) = p_bda p"
  by (simp_all add: post_init_def Let_def)

text \<open>
  C5, as the code has it: a response is a success exactly when its outcome flag is OK in
  any letter case (\<open>OK\<close>, \<open>Ok\<close>, \<open>oK\<close> or \<open>ok\<close>) and its shipment id is not empty.
\<close>

theorem is_success_iff:
  "is_success r \<longleftrightarrow>
     r_esito r \<in> {''OK'', ''Ok'', ''oK'', ''ok''} \<and> r_numero_spedizione r \<noteq> []"
  by (simp only: is_success_def upper_eq_OK)

text \<open>C5 as stated fails: a response whose flag is \<open>ok\<close>, not \<open>OK\<close>, and which has a
  shipment id is a success.\<close>

theorem is_success_lowercase_flag:
  "is_success \<lparr>r_numero_spedizione = ''123'', r_esito = ''ok'', r_pdf_base64 = [],
               r_error_message = [], r_bda = []\<rparr>
   \<and> r_esito \<lparr>r_numero_spedizione = ''123'', r_esito = ''ok'', r_pdf_base64 = [],
               r_error_message = [], r_bda = []\<rparr> \<noteq> ''OK''"
  by (simp add: is_success_def upper_def upper_char_def ascii_lowercase_def ascii_uppercase_def)

text \<open>
  C8 at the postal code \<open>100.0\<close>, which a numeric cell gives for 00100: the constructor
  keeps the decimal fragment, since the stripped text already has five characters. The
  two postal codes of the claim normalise as it says.
\<close>

theorem zipcode_decimal_fragment_kept:
  "p_zipcode (post_init (p\<lparr>p_zipcode := ''100.0''\<rparr>)) = ''100.0''
   \<and> p_zipcode (post_init (p\<lparr>p_zipcode := ''00100.0''\<rparr>)) = ''00100''
   \<and> p_zipcode (post_init (p\<lparr>p_zipcode := ''100''\<rparr>)) = ''00100''"
  by (simp add: post_init_fields zfill_def strip_def is_space_def whitespace_def
        eval_nat_numeral)

text \<open>
  C9, as the code has it: after construction the recipient name and the street address
  are the first 35 characters of the input, the note the first 40; the postal code has
  exactly 5 characters, all of them digits when the stripped input has digits only; the
  province code of an ASCII input has at most 2 characters and no lower-case letter, and
  is 2 upper-case letters when the input starts with two letters. The constructor has no
  failing branch.
\<close>

theorem parcel_wire_safety:
  "length (p_ragione_sociale (post_init p)) \<le> 35
   \<and> length (p_indirizzo (post_init p)) \<le> 35
   \<and> length (p_note (post_init p)) \<le> 40
   \<and> p_ragione_sociale (post_init p) = take 35 (p_ragione_sociale p)
   \<and> p_indirizzo (post_init p) = take 35 (p_indirizzo p)
   \<and> p_note (post_init p) = take 40 (p_note p)
   \<and> length (p_zipcode (post_init p)) = 5
   \<and> (list_all is_digit (strip (p_zipcode p)) \<longrightarrow> list_all is_digit (p_zipcode (post_init p)))
   \<and> (ascii (p_provincia p) \<longrightarrow>
        length (p_provincia (post_init p)) = min 2 (length (p_provincia p))
        \<and> list_all (\<lambda>c. c \<notin> set ascii_lowercase) (p_provincia (post_init p)))
   \<and> (ascii (p_provincia p) \<and> 2 \<le> length (p_provincia p)
        \<and> list_all is_letter (take 2 (p_provincia p)) \<longrightarrow>
        length (p_provincia (post_init p)) = 2
        \<and> list_all is_upper_letter (p_provincia (post_init p)))"
proof -
  have z: "list_all is_digit (strip (p_zipcode p))
           \<Longrightarrow> list_all is_digit (p_zipcode (post_init p))"
    by (simp add: post_init_fields list_all_take zfill_digits)
  have l: "list_all (\<lambda>c. c \<notin> set ascii_lowercase) (p_provincia (post_init p))"
    by (simp add: post_init_fields upper_def list_all_iff upper_char_not_lower)
  have u: "list_all is_letter (take 2 (p_provincia p)) \<Longrightarrow>
           list_all is_upper_letter (p_provincia (post_init p))"
    by (simp add: post_init_fields upper_def list_all_iff upper_char_letter)
  show ?thesis using z l u
    by (simp add: post_init_fields length_zfill upper_def min.commute)
qed

theorem parcel_wire_safety_witness:
  "length (p_ragione_sociale parcel_example) = 66
   \<and> list_all is_digit (strip (p_zipcode parcel_example))
   \<and> ascii (p_provincia parcel_example) \<and> 2 \<le> length (p_provincia parcel_example)
   \<and> list_all is_letter (take 2 (p_provincia parcel_example))
   \<and> length (p_ragione_sociale (post_init parcel_example)) \<le> 35
   \<and> length (p_zipcode (post_init parcel_example)) = 5
   \<and> list_all is_digit (p_zipcode (post_init parcel_example))
   \<and> length (p_provincia (post_init parcel_example)) = 2
   \<and> list_all is_upper_letter (p_provincia (post_init parcel_example))"
proof -
  have h: "list_all is_digit (strip (p_zipcode parcel_example))"
    "ascii (p_provincia parcel_example)" "2 \<le> length (p_provincia parcel_example)"
    "list_all is_letter (take 2 (p_provincia parcel_example))"
    by code_simp+
  have n: "length (p_ragione_sociale parcel_example) = 66"
    by (simp add: parcel_example_def)
  show ?thesis using parcel_wire_safety [of parcel_example] h n by simp
qed

text \<open>C9 as stated fails: a province given as one letter stays one letter, and a postal
  code that is not a number is padded as it is.\<close>

theorem province_not_two_letters:
  "p_provincia (new_GLSParcel ''Rossi'' ''Via Roma 1'' ''Roma'' ''00100'' ''r'' 1 3 [] [] [] [])
     = ''R''
   \<and> p_zipcode (new_GLSParcel ''Rossi'' ''Via Roma 1'' ''Roma'' ''n.d.'' ''rm'' 1 3 [] [] [] [])
     = ''0n.d.''"
  by (simp add: new_GLSParcel_def post_init_fields upper_def upper_char_def ascii_lowercase_def
        ascii_uppercase_def zfill_def strip_def is_space_def whitespace_def eval_nat_numeral)

section \<open>Response parsing\<close>

lemma r_bda_parse_child:
  "r_bda (parse_child r c) = (if lower (x_tag c) = ''bda'' then x_text c else r_bda r)"
  by (simp add: parse_child_def Let_def)

lemma r_bda_foldl_parse_child:
  "r_bda (foldl parse_child r cs) =
     (if filter (\<lambda>c. lower (x_tag c) = ''bda'') cs \<noteq> []
      then x_text (last (filter (\<lambda>c. lower (x_tag c) = ''bda'') cs)) else r_bda r)"
  by (induction cs rule: rev_induct) (simp_all add: r_bda_parse_child)

lemma r_bda_parse_entry:
  "r_bda (parse_entry parcels i entry) =
     (if bda_fields entry \<noteq> [] then x_text (last (bda_fields entry))
      else if i < length parcels then p_bda (parcels ! i) else [])"
  by (simp add: parse_entry_def Let_def r_bda_foldl_parse_child bda_fields_def new_GLSResponse_def)

lemma enumerate_eq_Nil_iff: "enumerate n xs = [] \<longleftrightarrow> xs = []"
  by (cases xs) simp_all

lemma parse_well_formed:
  "parse_add_parcel_response (WellFormed raw rt ser) parcels =
     (if parcel_entries rt = []
      then map (failure_response (''Risposta non parsabile: ''
                  @ take 100 (if x_text rt \<noteq> [] then x_text rt else ser))) parcels
      else map (\<lambda>(i, e). parse_entry parcels i e) (enumerate 0 (parcel_entries rt)))"
  unfolding parse_add_parcel_response_def parcel_entries_def Let_def failure_response_def
    new_GLSResponse_def
  by (simp add: enumerate_eq_Nil_iff)

lemma parse_well_formed_entries:
  "parcel_entries rt \<noteq> [] \<Longrightarrow>
   parse_add_parcel_response (WellFormed raw rt ser) parcels =
     map (\<lambda>(i, e). parse_entry parcels i e) (enumerate 0 (parcel_entries rt))"
  by (simp add: parse_well_formed)

lemma parse_well_formed_nth:
  assumes "i < length (parcel_entries rt)"
  shows "parse_add_parcel_response (WellFormed raw rt ser) parcels ! i =
         parse_entry parcels i (parcel_entries rt ! i)"
proof -
  from assms have "parcel_entries rt \<noteq> []" by auto
  then show ?thesis using assms
    by (simp add: parse_well_formed_entries nth_enumerate_eq)
qed

lemma parse_well_formed_empty:
  "parcel_entries rt = [] \<Longrightarrow>
   parse_add_parcel_response (WellFormed raw rt ser) parcels =
     map (failure_response (''Risposta non parsabile: ''
            @ take 100 (if x_text rt \<noteq> [] then x_text rt else ser))) parcels"
  by (simp add: parse_well_formed)

lemma parse_not_well_formed:
  "parse_add_parcel_response (NotWellFormed raw e) parcels =
     map (failure_response (''XML non valido: '' @ e)) parcels"
  by (simp add: parse_add_parcel_response_def failure_response_def new_GLSResponse_def)

lemma failure_response_not_success: "\<not> is_success (failure_response msg p)"
  by (simp add: is_success_def failure_response_def)

text \<open>
  C4, as the code has it: for a well-formed document without parcel entries the result
  is one failure response per submitted parcel, with outcome \<open>KO\<close>, the parcel's own
  reference and the error text \<open>Risposta non parsabile:\<close> followed by the first 100
  characters of the text of the root element, or of the serialised document when the
  root has no text; for a document that is not well-formed it is one failure response
  per parcel with the text \<open>XML non valido:\<close> and the parser's message; and the reference
  of a parsed entry is the text of its last \<open>bda\<close> child when it has one, otherwise the
  reference of the parcel at the same position, and empty when there is no such parcel.
\<close>

theorem parse_failure_contract:
  "(parcel_entries rt = [] \<longrightarrow>
      parse_add_parcel_response (WellFormed raw rt ser) parcels
        = map (failure_response (''Risposta non parsabile: ''
                 @ take 100 (if x_text rt \<noteq> [] then x_text rt else ser))) parcels
      \<and> length (parse_add_parcel_response (WellFormed raw rt ser) parcels) = length parcels
      \<and> list_all (\<lambda>r. \<not> is_success r)
            (parse_add_parcel_response (WellFormed raw rt ser) parcels))
   \<and> parse_add_parcel_response (NotWellFormed raw e) parcels
        = map (failure_response (''XML non valido: '' @ e)) parcels
   \<and> length (parse_add_parcel_response (NotWellFormed raw e) parcels) = length parcels
   \<and> list_all (\<lambda>r. \<not> is_success r) (parse_add_parcel_response (NotWellFormed raw e) parcels)
   \<and> (i < length (parcel_entries rt) \<longrightarrow>
        r_bda (parse_add_parcel_response (WellFormed raw rt ser) parcels ! i)
          = (if bda_fields (parcel_entries rt ! i) \<noteq> []
             then x_text (last (bda_fields (parcel_entries rt ! i)))
             else if i < length parcels then p_bda (parcels ! i) else []))"
proof -
  have a: "parcel_entries rt = [] \<longrightarrow>
      parse_add_parcel_response (WellFormed raw rt ser) parcels
        = map (failure_response (''Risposta non parsabile: ''
                 @ take 100 (if x_text rt \<noteq> [] then x_text rt else ser))) parcels
      \<and> length (parse_add_parcel_response (WellFormed raw rt ser) parcels) = length parcels
      \<and> list_all (\<lambda>r. \<not> is_success r)
            (parse_add_parcel_response (WellFormed raw rt ser) parcels)"
    by (simp add: parse_well_formed_empty list_all_iff failure_response_not_success)
  have b: "parse_add_parcel_response (NotWellFormed raw e) parcels
        = map (failure_response (''XML non valido: '' @ e)) parcels"
    by (rule parse_not_well_formed)
  have c: "length (parse_add_parcel_response (NotWellFormed raw e) parcels) = length parcels"
    by (simp add: b)
  have d: "list_all (\<lambda>r. \<not> is_success r) (parse_add_parcel_response (NotWellFormed raw e) parcels)"
    by (simp add: b list_all_iff failure_response_not_success)
  have f: "i < length (parcel_entries rt) \<longrightarrow>
        r_bda (parse_add_parcel_response (WellFormed raw rt ser) parcels ! i)
          = (if bda_fields (parcel_entries rt ! i) \<noteq> []
             then x_text (last (bda_fields (parcel_entries rt ! i)))
             else if i < length parcels then p_bda (parcels ! i) else [])"
    by (rule impI) (simp add: parse_well_formed_nth r_bda_parse_entry)
  show ?thesis by (intro conjI a b c d f)
qed


theorem parse_failure_contract_witness:
  "parcel_entries (Element ''Info'' ''credenziali errate'' []) = []
   \<and> (1::nat) < length (parcel_entries root_echo)
   \<and> map r_error_message (parse_add_parcel_response body_text_only
                             [post_init parcel_example, post_init parcel_example])
       = [''Risposta non parsabile: credenziali errate'',
          ''Risposta non parsabile: credenziali errate'']
   \<and> length (parse_add_parcel_response (NotWellFormed ''<Info'' ''Premature end of data'')
                [post_init parcel_example]) = 1
   \<and> r_bda (parse_add_parcel_response body_echo
               [post_init parcel_example, post_init parcel_example] ! 0) = ''X9''
   \<and> r_bda (parse_add_parcel_response body_echo
               [post_init parcel_example, post_init parcel_example] ! 1) = ''7''"
proof -
  let ?ps = "[post_init parcel_example, post_init parcel_example]"
  have e0: "parcel_entries (Element ''Info'' ''credenziali errate'' []) = []" by code_simp
  have e1: "(0::nat) < length (parcel_entries root_echo)"
    "(1::nat) < length (parcel_entries root_echo)" by code_simp+
  have b0: "bda_fields (parcel_entries root_echo ! 0) \<noteq> []"
    "x_text (last (bda_fields (parcel_entries root_echo ! 0))) = ''X9''"
    "bda_fields (parcel_entries root_echo ! 1) = []"
    "p_bda (?ps ! 1) = ''7''" "(1::nat) < length ?ps"
    by code_simp+
  note t0 = parse_failure_contract [where rt = "Element ''Info'' ''credenziali errate'' []"
      and raw = "''<Info>credenziali errate</Info>''" and ser = "''<Info>credenziali errate</Info>''"
      and parcels = ?ps and e = "''Premature end of data''" and i = 0]
  from t0 e0 have "parse_add_parcel_response body_text_only ?ps
      = map (failure_response (''Risposta non parsabile: '' @ take 100 ''credenziali errate'')) ?ps"
    by (simp add: body_text_only_def)
  then have m: "map r_error_message (parse_add_parcel_response body_text_only ?ps)
       = [''Risposta non parsabile: credenziali errate'',
          ''Risposta non parsabile: credenziali errate'']"
    by (simp add: failure_response_def)
  note t1 = parse_failure_contract [where rt = root_echo and parcels = "[post_init parcel_example]"
      and raw = "''<Info''" and e = "''Premature end of data''" and i = 0]
  from t1 have n: "length (parse_add_parcel_response (NotWellFormed ''<Info''
      ''Premature end of data'') [post_init parcel_example]) = 1" by simp
  note t2 = parse_failure_contract [where rt = root_echo and parcels = ?ps and i = 0,
      THEN conjunct2, THEN conjunct2, THEN conjunct2, THEN conjunct2, THEN mp, OF e1(1)]
  note t3 = parse_failure_contract [where rt = root_echo and parcels = ?ps and i = 1,
      THEN conjunct2, THEN conjunct2, THEN conjunct2, THEN conjunct2, THEN mp, OF e1(2)]
  have x0: "r_bda (parse_add_parcel_response body_echo ?ps ! 0) = ''X9''"
    unfolding body_echo_def t2 using b0 by simp
  have x1: "r_bda (parse_add_parcel_response body_echo ?ps ! 1) = ''7''"
    unfolding body_echo_def t3 using b0 by simp
  show ?thesis by (intro conjI e0 e1(2) m n x0 x1)
qed

text \<open>C4 as stated fails: for the body \<open><Info>credenziali errate</Info>\<close> the error text
  is built from the text of the root element, not from the raw body.\<close>

theorem error_text_is_not_the_raw_body:
  "map r_error_message (parse_add_parcel_response body_text_only [post_init parcel_example])
     = [''Risposta non parsabile: credenziali errate'']
   \<and> body_text_only = WellFormed ''<Info>credenziali errate</Info>''
                         (Element ''Info'' ''credenziali errate'' [])
                         ''<Info>credenziali errate</Info>''
   \<and> take 100 ''<Info>credenziali errate</Info>'' = ''<Info>credenziali errate</Info>''"
  by (simp add: body_text_only_def parse_well_formed parcel_entries_def findall_def
        failure_response_def)

section \<open>Reconciliation\<close>



lemma save_ok:
  "save_io E (saves w) = IoOk \<Longrightarrow> fst (save E folder w) = None"
  by (simp add: save_def Let_def)


lemma add_failure_counts:
  "u_uploaded (add_failure e b res) = u_uploaded res"
  "u_failed (add_failure e b res) = u_failed res + 1"
  "u_skipped (add_failure e b res) = u_skipped res"
  "u_total (add_failure e b res) = u_total res"
  by (simp_all add: add_failure_def)


section \<open>Retry\<close>





lemma get_client_frame:
  "get_client E w = (ex, w1) \<Longrightarrow>
   calls w1 = calls w \<and> sleeps w1 = sleeps w \<and> submissions w1 = submissions w
   \<and> tracker_data w1 = tracker_data w \<and> tracker_base w1 = tracker_base w \<and> disk w1 = disk w
   \<and> saves w1 = saves w \<and> clock w1 = clock w"
  by (auto simp: get_client_def split: if_splits option.splits)




section \<open>Batching\<close>

lemma batches_concat: "concat (batches m xs s) = (if 0 < m then drop s xs else [])"
proof (induction m xs s rule: batches.induct)
  case (1 m xs s)
  show ?case
  proof (cases "0 < m \<and> s < length xs")
    case True
    have k: "take (min (s + m) (length xs) - s) (drop s xs) = take m (drop s xs)"
      by (cases "s + m \<le> length xs") (simp_all add: min_def)
    have "concat (batches m xs s) = take m (drop s xs) @ concat (batches m xs (s + m))"
      using True by (subst batches.simps) (simp add: k)
    also have "concat (batches m xs (s + m)) = drop m (drop s xs)"
      using True 1 by (simp add: add.commute)
    finally show ?thesis
      using True append_take_drop_id [of m "drop s xs"] by (simp del: append_take_drop_id)
  next
    case False
    then show ?thesis by (subst batches.simps) auto
  qed
qed

lemma batches_bound: "b \<in> set (batches m xs s) \<Longrightarrow> b \<noteq> [] \<and> length b \<le> m"
proof (induction m xs s rule: batches.induct)
  case (1 m xs s)
  show ?case
  proof (cases "0 < m \<and> s < length xs")
    case True
    let ?b0 = "take (min (s + m) (length xs) - s) (drop s xs)"
    from True have unfold: "batches m xs s = ?b0 # batches m xs (s + m)"
      by (subst batches.simps) simp
    from True have l: "length ?b0 = min (s + m) (length xs) - s" by simp
    from True l have b0: "?b0 \<noteq> [] \<and> length ?b0 \<le> m"
      by (cases "s + m \<le> length xs") (auto simp: min_def)
    from "1.prems" unfold have "b = ?b0 \<or> b \<in> set (batches m xs (s + m))" by simp
    then show ?thesis
    proof
      assume "b = ?b0"
      with b0 show ?thesis by simp
    next
      assume "b \<in> set (batches m xs (s + m))"
      with True "1.IH" show ?thesis by blast
    qed
  next
    case False
    then have "batches m xs s = []" by (subst batches.simps) auto
    with "1.prems" show ?thesis by simp
  qed
qed

lemma batches_two: "0 < m \<Longrightarrow> length xs = 2 * m \<Longrightarrow> length (batches m xs 0) = 2"
  by (simp add: batches.simps [of m xs 0] batches.simps [of m xs m]
        batches.simps [of m xs "m + m"])

lemma save_submissions: "save E folder w = (ex, w1) \<Longrightarrow> submissions w1 = submissions w"
  by (auto simp: save_def Let_def open_for_write_def write_partly_def dump_and_close_def
      split: io_outcome.splits)

lemma mark_uploaded_submissions:
  "mark_uploaded E bp fp idx rd sid resp w = (ex, w1) \<Longrightarrow> submissions w1 = submissions w"
  unfolding mark_uploaded_def Let_def by (drule save_submissions) simp

lemma reconcile_submissions:
  "reconcile E bp fp bis i rs res w = (raised, res', w') \<Longrightarrow> submissions w' = submissions w"
proof (induction rs arbitrary: i res w)
  case Nil
  then show ?case by simp
next
  case (Cons r rs)
  show ?case
  proof (cases "i < length bis")
    case False
    with Cons.prems show ?thesis by simp
  next
    case True
    obtain idx rd where b: "bis ! i = (idx, rd)" by (cases "bis ! i")
    show ?thesis
    proof (cases "is_success r")
      case False
      with True b Cons.prems Cons.IH show ?thesis by simp
    next
      case s: True
      obtain ex w1 where m: "mark_uploaded E bp fp idx rd (r_numero_spedizione r)
                               [(''esito'', r_esito r)] w = (ex, w1)"
        by (cases "mark_uploaded E bp fp idx rd (r_numero_spedizione r) [(''esito'', r_esito r)] w")
      from mark_uploaded_submissions [OF m] have k: "submissions w1 = submissions w" .
      show ?thesis
      proof (cases ex)
        case None
        with True b s m Cons.prems
        have "reconcile E bp fp bis (i + 1) rs (add_success r res) w1 = (raised, res', w')"
          by simp
        from Cons.IH [OF this] k show ?thesis by simp
      next
        case (Some e)
        with True b s m Cons.prems k show ?thesis by auto
      qed
    qed
  qed
qed

lemma retry_loop_submissions:
  "retry_loop C E op a lerr w = (r, w') \<Longrightarrow> submissions w' = submissions w"
proof (induction "GLS_RETRY_ATTEMPTS C - a" arbitrary: a lerr w)
  case 0
  then show ?case by (auto simp: retry_loop.simps [of C E op a lerr w])
next
  case (Suc m)
  then have lt: "a < GLS_RETRY_ATTEMPTS C" by simp
  have m: "m = GLS_RETRY_ATTEMPTS C - (a + 1)" using Suc.hyps(2) by simp
  have ih: "submissions w' = submissions v"
    if "retry_loop C E op (a + 1) le v = (r, w')" for le v
    using Suc.hyps(1) [OF m that] .
  define w1 where "w1 = w\<lparr>calls := calls w @ [op]\<rparr>"
  define w2 where "w2 = (if a < GLS_RETRY_ATTEMPTS C - 1
                         then w1\<lparr>sleeps := sleeps w1 @ [GLS_RETRY_DELAY C * 2 ^ a]\<rparr> else w1)"
  have s12: "submissions w1 = submissions w" "submissions w2 = submissions w"
    by (simp_all add: w1_def w2_def)
  have step: "retry_loop C E op a lerr w =
     (case remote E (length (calls w)) op of
        Returns body \<Rightarrow> (Inr body, w1)
      | Fault e \<Rightarrow> retry_loop C E op (a + 1) (Some e) w2
      | TransportError e \<Rightarrow> retry_loop C E op (a + 1) (Some e) w2
      | OtherException e \<Rightarrow> (Inl (GLSClientError (''Errore imprevisto: '' @ e)), w1))"
    using lt by (subst retry_loop.simps)
      (auto simp add: Let_def w1_def w2_def split: remote_outcome.splits)
  show ?case
  proof (cases "remote E (length (calls w)) op")
    case (Returns body)
    with step Suc.prems s12 show ?thesis by auto
  next
    case (Fault e)
    with step Suc.prems have "retry_loop C E op (a + 1) (Some e) w2 = (r, w')" by simp
    from ih [OF this] s12 show ?thesis by simp
  next
    case (TransportError e)
    with step Suc.prems have "retry_loop C E op (a + 1) (Some e) w2 = (r, w')" by simp
    from ih [OF this] s12 show ?thesis by simp
  next
    case (OtherException e)
    with step Suc.prems s12 show ?thesis by auto
  qed
qed

lemma execute_with_retry_submissions:
  assumes "execute_with_retry C E op w = (r, w')"
  shows "submissions w' = submissions w"
proof -
  obtain ex w1 where g: "get_client E w = (ex, w1)" by (cases "get_client E w")
  from get_client_frame [OF g] have k: "submissions w1 = submissions w" by simp
  show ?thesis
  proof (cases ex)
    case (Some e)
    with assms g k show ?thesis by (auto simp: execute_with_retry_def)
  next
    case None
    with assms g have "retry_loop C E op 0 None w1 = (r, w')"
      by (simp add: execute_with_retry_def)
    from retry_loop_submissions [OF this] k show ?thesis by simp
  qed
qed

lemma add_parcels_submissions:
  assumes "add_parcels C E cr ps gp w = (r, w')"
  shows "submissions w' = submissions w @ [ps]"
proof -
  let ?w0 = "w\<lparr>submissions := submissions w @ [ps]\<rparr>"
  obtain r1 w1 where e: "execute_with_retry C E (AddParcel cr ps gp) ?w0 = (r1, w1)"
    by (cases "execute_with_retry C E (AddParcel cr ps gp) ?w0")
  from execute_with_retry_submissions [OF e] have k: "submissions w1 = submissions w @ [ps]"
    by simp
  show ?thesis
  proof (cases "GLS_MAX_PARCELS_PER_BATCH C < length ps \<or> ps = []")
    case True
    with assms have "w' = ?w0" by (auto simp: add_parcels_def Let_def)
    then show ?thesis by simp
  next
    case False
    with assms e have "w' = w1" by (cases r1) (auto simp: add_parcels_def Let_def)
    with k show ?thesis by simp
  qed
qed

lemma add_parcels_too_many:
  "GLS_MAX_PARCELS_PER_BATCH C < length ps \<Longrightarrow>
   add_parcels C E cr ps gp w =
     (Inl (GLSClientError (''Massimo '' @ str_nat (GLS_MAX_PARCELS_PER_BATCH C)
                           @ '' spedizioni per batch'')),
      w\<lparr>submissions := submissions w @ [ps]\<rparr>)"
  by (simp add: add_parcels_def Let_def)

lemma upload_batch_submissions:
  assumes "upload_batch C E cr bp fp gp batch bis res w = (raised, res', w')"
  shows "submissions w' = submissions w @ [batch]"
proof -
  obtain r1 w1 where a: "add_parcels C E cr batch gp w = (r1, w1)"
    by (cases "add_parcels C E cr batch gp w")
  from add_parcels_submissions [OF a] have k: "submissions w1 = submissions w @ [batch]" .
  show ?thesis
  proof (cases r1)
    case (Inl e)
    with assms a k show ?thesis by (cases e) (auto simp: upload_batch_def)
  next
    case (Inr responses)
    with assms a have "reconcile E bp fp bis 0 responses res w1 = (raised, res', w')"
      by (simp add: upload_batch_def)
    from reconcile_submissions [OF this] k show ?thesis by simp
  qed
qed

lemma upload_batches_from_submissions:
  "upload_batches_from C E cr bp fp gp parcels rows s res w = (raised, res', w') \<Longrightarrow>
   \<exists>bs rest. submissions w' = submissions w @ bs
     \<and> batches (GLS_MAX_PARCELS_PER_BATCH C) parcels s = bs @ rest
     \<and> (raised = None \<longrightarrow> rest = [])"
proof (induction "length parcels - s" arbitrary: s res w rule: less_induct)
  case less
  let ?m = "GLS_MAX_PARCELS_PER_BATCH C"
  show ?case
  proof (cases "0 < ?m \<and> s < length parcels")
    case False
    with less.prems have "w' = w" "raised = None"
      by (auto simp: upload_batches_from.simps [of C E cr bp fp gp parcels rows s res w])
    moreover from False have "batches ?m parcels s = []"
      by (subst batches.simps) auto
    ultimately show ?thesis by simp
  next
    case True
    let ?b = "take (min (s + ?m) (length parcels) - s) (drop s parcels)"
    let ?bi = "take (min (s + ?m) (length parcels) - s) (drop s rows)"
    obtain ex r1 w1 where u: "upload_batch C E cr bp fp gp ?b ?bi res w = (ex, r1, w1)"
      by (cases "upload_batch C E cr bp fp gp ?b ?bi res w")
    from upload_batch_submissions [OF u] have s1: "submissions w1 = submissions w @ [?b]" .
    from True have bt: "batches ?m parcels s = ?b # batches ?m parcels (s + ?m)"
      by (subst batches.simps) simp
    show ?thesis
    proof (cases ex)
      case (Some e)
      with True u less.prems have "w' = w1" "raised = Some e"
        by (auto simp: upload_batches_from.simps [of C E cr bp fp gp parcels rows s res w] Let_def)
      with s1 bt show ?thesis by auto
    next
      case None
      with True u less.prems
      have rec: "upload_batches_from C E cr bp fp gp parcels rows (s + ?m) r1 w1 = (raised, res', w')"
        by (auto simp: upload_batches_from.simps [of C E cr bp fp gp parcels rows s res w] Let_def)
      from True have "length parcels - (s + ?m) < length parcels - s" by auto
      from less.hyps [OF this rec] obtain bs rest where
        "submissions w' = submissions w1 @ bs" "batches ?m parcels (s + ?m) = bs @ rest"
        "raised = None \<longrightarrow> rest = []" by blast
      with s1 bt show ?thesis by (intro exI [of _ "?b # bs"] exI [of _ rest]) simp
    qed
  qed
qed

lemma str_nat_nonempty: "str_nat n \<noteq> []"
  by (subst str_nat.simps) simp

lemma str_int_nonempty: "str_int i \<noteq> []"
  by (simp add: str_int_def str_nat_nonempty)

lemma foldl_add_failure:
  "foldl (\<lambda>res (idx, row_data). add_failure e (str_int idx) res) result bis
     = failed_rows e bis result"
proof (induction bis arbitrary: result)
  case Nil
  then show ?case by (simp add: failed_rows_def)
next
  case (Cons b bis)
  obtain idx rd where b: "b = (idx, rd)" by (cases b)
  show ?case
    by (simp add: Cons.IH b) (simp add: failed_rows_def add_failure_def str_int_nonempty)
qed

text \<open>
  C3: the arguments of the calls of \<open>add_parcels\<close> made by \<open>_upload_batches\<close> are, in
  order, the first of the consecutive slices of the parcel list, and all of them when no
  exception leaves the loop; every slice is non-empty and has at most
  \<open>GLS_MAX_PARCELS_PER_BATCH\<close> parcels; the slices concatenated are the parcel list; a
  list of twice the maximum gives two slices; and \<open>add_parcels\<close> on more than the maximum
  returns a \<open>GLSClientError\<close> in a state where only the log of its own call has changed.
\<close>

theorem batch_size_invariant:
  "upload_batches C E cr bp fp gp parcels rows res w = (raised, res', w') \<Longrightarrow>
   0 < GLS_MAX_PARCELS_PER_BATCH C \<Longrightarrow>
   (\<exists>bs rest. submissions w' = submissions w @ bs
       \<and> batches (GLS_MAX_PARCELS_PER_BATCH C) parcels 0 = bs @ rest
       \<and> (raised = None \<longrightarrow> rest = []))
   \<and> (\<forall>b \<in> set (batches (GLS_MAX_PARCELS_PER_BATCH C) parcels 0).
          b \<noteq> [] \<and> length b \<le> GLS_MAX_PARCELS_PER_BATCH C)
   \<and> concat (batches (GLS_MAX_PARCELS_PER_BATCH C) parcels 0) = parcels
   \<and> (length parcels = 2 * GLS_MAX_PARCELS_PER_BATCH C \<longrightarrow>
        length (batches (GLS_MAX_PARCELS_PER_BATCH C) parcels 0) = 2)
   \<and> (GLS_MAX_PARCELS_PER_BATCH C < length ps \<longrightarrow>
        add_parcels C E cr ps gp v =
          (Inl (GLSClientError (''Massimo '' @ str_nat (GLS_MAX_PARCELS_PER_BATCH C)
                                @ '' spedizioni per batch'')),
           v\<lparr>submissions := submissions v @ [ps]\<rparr>))"
proof -
  assume run: "upload_batches C E cr bp fp gp parcels rows res w = (raised, res', w')"
    and pos: "0 < GLS_MAX_PARCELS_PER_BATCH C"
  from run pos have "upload_batches_from C E cr bp fp gp parcels rows 0 res w = (raised, res', w')"
    by (simp add: upload_batches_def)
  from upload_batches_from_submissions [OF this]
  have a: "\<exists>bs rest. submissions w' = submissions w @ bs
       \<and> batches (GLS_MAX_PARCELS_PER_BATCH C) parcels 0 = bs @ rest
       \<and> (raised = None \<longrightarrow> rest = [])" .
  have b: "\<forall>b \<in> set (batches (GLS_MAX_PARCELS_PER_BATCH C) parcels 0).
          b \<noteq> [] \<and> length b \<le> GLS_MAX_PARCELS_PER_BATCH C"
    using batches_bound by blast
  have c: "concat (batches (GLS_MAX_PARCELS_PER_BATCH C) parcels 0) = parcels"
    using pos by (simp add: batches_concat)
  have d: "length parcels = 2 * GLS_MAX_PARCELS_PER_BATCH C \<longrightarrow>
        length (batches (GLS_MAX_PARCELS_PER_BATCH C) parcels 0) = 2"
    by (rule impI) (rule batches_two [OF pos])
  have e: "GLS_MAX_PARCELS_PER_BATCH C < length ps \<longrightarrow>
        add_parcels C E cr ps gp v =
          (Inl (GLSClientError (''Massimo '' @ str_nat (GLS_MAX_PARCELS_PER_BATCH C)
                                @ '' spedizioni per batch'')),
           v\<lparr>submissions := submissions v @ [ps]\<rparr>)"
    by (rule impI) (rule add_parcels_too_many)
  show ?thesis by (intro conjI a b c d e)
qed

theorem batch_size_invariant_witness:
  "0 < GLS_MAX_PARCELS_PER_BATCH config_scenario
   \<and> length parcels_four = 2 * GLS_MAX_PARCELS_PER_BATCH config_scenario
   \<and> GLS_MAX_PARCELS_PER_BATCH config_scenario < length (take 3 parcels_four)
   \<and> fst upload_four = None
   \<and> length (submissions (snd (snd upload_four))) = 2
   \<and> list_all (\<lambda>b. length b \<le> 2) (submissions (snd (snd upload_four)))
   \<and> concat (submissions (snd (snd upload_four))) = parcels_four
   \<and> fst (add_parcels config_scenario env_scenario credentials_scenario (take 3 parcels_four)
             False (new_world (\<lambda>folder. Missing)))
       = Inl (GLSClientError ''Massimo 2 spedizioni per batch'')
   \<and> calls (snd (add_parcels config_scenario env_scenario credentials_scenario
                    (take 3 parcels_four) False (new_world (\<lambda>folder. Missing)))) = []"
proof -
  let ?C = config_scenario
  let ?w = "snd (get_tracker env_scenario file_scenario (new_world (\<lambda>folder. Missing)))"
  let ?v = "new_world (\<lambda>folder. Missing)"
  have h1: "0 < GLS_MAX_PARCELS_PER_BATCH ?C" by code_simp
  have h2: "length parcels_four = 2 * GLS_MAX_PARCELS_PER_BATCH ?C" by code_simp
  have h3: "GLS_MAX_PARCELS_PER_BATCH ?C < length (take 3 parcels_four)" by code_simp
  have h4: "fst upload_four = None"
    by (simp add: upload_four_def rows_four_def parcels_four_def run_defs
          cong: prod.case_cong_weak)
  have m: "GLS_MAX_PARCELS_PER_BATCH ?C = 2" by code_simp
  have s0: "submissions ?w = []" by code_simp
  have c0: "calls ?v = []" by code_simp
  have p: "upload_batches ?C env_scenario credentials_scenario ''/dati'' file_scenario False
             parcels_four rows_four new_GLSUploadResult ?w
           = (fst upload_four, fst (snd upload_four), snd (snd upload_four))"
    by (simp add: upload_four_def)
  note t = batch_size_invariant [OF p h1, where ps = "take 3 parcels_four" and v = ?v]
  from t h4 s0 have sub: "submissions (snd (snd upload_four)) = batches 2 parcels_four 0"
    by (auto simp: m)
  from t h2 have l: "length (batches 2 parcels_four 0) = 2" by (simp add: m)
  from t have bd: "list_all (\<lambda>b. length b \<le> 2) (batches 2 parcels_four 0)"
    by (simp add: m list_all_iff)
  from t have cc: "concat (batches 2 parcels_four 0) = parcels_four" by (simp add: m)
  have n': "''Massimo '' @ str_nat (GLS_MAX_PARCELS_PER_BATCH ?C) @ '' spedizioni per batch''
            = ''Massimo 2 spedizioni per batch''"
    by code_simp
  from conjunct2 [OF conjunct2 [OF conjunct2 [OF conjunct2 [OF t]]]] h3
  have "add_parcels ?C env_scenario credentials_scenario (take 3 parcels_four) False ?v
        = (Inl (GLSClientError (''Massimo '' @ str_nat (GLS_MAX_PARCELS_PER_BATCH ?C)
                                @ '' spedizioni per batch'')),
           ?v\<lparr>submissions := submissions ?v @ [take 3 parcels_four]\<rparr>)"
    by (rule mp)
  then have ap: "add_parcels ?C env_scenario credentials_scenario (take 3 parcels_four)
       False ?v = (Inl (GLSClientError ''Massimo 2 spedizioni per batch''),
                   ?v\<lparr>submissions := submissions ?v @ [take 3 parcels_four]\<rparr>)"
    by (simp only: n')
  show ?thesis using h1 h2 h3 h4 by (simp add: sub l bd cc ap c0)
qed

text \<open>C3 as stated fails: with four parcels and two parcels per batch, and a ledger that
  cannot be saved, the \<open>RuntimeError\<close> of the first \<open>mark_uploaded\<close> leaves the loop after one
  call of \<open>add_parcels\<close>.\<close>

theorem two_batches_one_submission:
  "length parcels_four = 2 * GLS_MAX_PARCELS_PER_BATCH config_scenario
   \<and> fst upload_four_unsaved
       = Some (RuntimeError ''Impossibile salvare tracker: [Errno 28] No space left on device'')
   \<and> map length (submissions (snd (snd upload_four_unsaved))) = [2]
   \<and> length (calls (snd (snd upload_four_unsaved))) = 1"
proof -
  have a: "length parcels_four = 2 * GLS_MAX_PARCELS_PER_BATCH config_scenario"
    by code_simp
  have b: "fst upload_four_unsaved
       = Some (RuntimeError ''Impossibile salvare tracker: [Errno 28] No space left on device'')"
    by (simp add: upload_four_unsaved_def env_save_fails_def third_batch_start_def rows_four_def
          parcels_four_def run_defs cong: prod.case_cong_weak)
  have c: "map length (submissions (snd (snd upload_four_unsaved))) = [2]"
    by (simp add: upload_four_unsaved_def env_save_fails_def third_batch_start_def rows_four_def
          parcels_four_def run_defs cong: prod.case_cong_weak)
  have d: "length (calls (snd (snd upload_four_unsaved))) = 1"
    by (simp add: upload_four_unsaved_def env_save_fails_def third_batch_start_def rows_four_def
          parcels_four_def run_defs cong: prod.case_cong_weak)
  show ?thesis by (intro conjI a b c d)
qed

section \<open>Group failure\<close>

text \<open>
  C6: when \<open>add_parcels\<close> raises a \<open>GLSClientError\<close> for a batch, the \<open>try\<close> statement ends
  without an exception, every row of the batch is counted as failed with the message
  \<open>ERRORE idx: text\<close>, nothing is counted as uploaded or skipped, and the loop goes on
  with the next batch. In the run of three rows with two parcels per batch, where the
  second batch times out three times, the result is 2 uploaded, 0 skipped, 1 failed.
\<close>

theorem group_failure_isolation:
  "add_parcels C E cr batch gp w = (Inl (GLSClientError e), w1) \<Longrightarrow>
   upload_batch C E cr bp fp gp batch bis res w = (None, failed_rows e bis res, w1)
   \<and> u_failed (failed_rows e bis res) = u_failed res + length bis
   \<and> u_uploaded (failed_rows e bis res) = u_uploaded res
   \<and> u_skipped (failed_rows e bis res) = u_skipped res
   \<and> (0 < GLS_MAX_PARCELS_PER_BATCH C \<and> s < length parcels
        \<and> batch = take (min (s + GLS_MAX_PARCELS_PER_BATCH C) (length parcels) - s)
                      (drop s parcels)
        \<and> bis = take (min (s + GLS_MAX_PARCELS_PER_BATCH C) (length parcels) - s)
                    (drop s rows) \<longrightarrow>
        upload_batches_from C E cr bp fp gp parcels rows s res w =
        upload_batches_from C E cr bp fp gp parcels rows (s + GLS_MAX_PARCELS_PER_BATCH C)
          (failed_rows e bis res) w1)
   \<and> (case run_scenario of
         (Inr result, w2) \<Rightarrow>
           u_total result = 3 \<and> u_uploaded result = 2 \<and> u_skipped result = 0
           \<and> u_failed result = 1
           \<and> u_errors result = [''ERRORE 2: Fallito dopo 3 tentativi: timeout'']
           \<and> map length (submissions w2) = [2, 1] \<and> length (calls w2) = 4
           \<and> sleeps w2 = [2, 4]
       | (Inl ex, w2) \<Rightarrow> False)"
proof -
  assume a: "add_parcels C E cr batch gp w = (Inl (GLSClientError e), w1)"
  have ub: "upload_batch C E cr bp fp gp batch bis res w = (None, failed_rows e bis res, w1)"
    by (simp add: upload_batch_def a foldl_add_failure)
  have cnt: "u_failed (failed_rows e bis res) = u_failed res + length bis"
    "u_uploaded (failed_rows e bis res) = u_uploaded res"
    "u_skipped (failed_rows e bis res) = u_skipped res"
    by (simp_all add: failed_rows_def)
  have cont: "0 < GLS_MAX_PARCELS_PER_BATCH C \<and> s < length parcels
        \<and> batch = take (min (s + GLS_MAX_PARCELS_PER_BATCH C) (length parcels) - s)
                      (drop s parcels)
        \<and> bis = take (min (s + GLS_MAX_PARCELS_PER_BATCH C) (length parcels) - s)
                    (drop s rows) \<longrightarrow>
        upload_batches_from C E cr bp fp gp parcels rows s res w =
        upload_batches_from C E cr bp fp gp parcels rows (s + GLS_MAX_PARCELS_PER_BATCH C)
          (failed_rows e bis res) w1"
  proof (intro impI, elim conjE)
    assume h: "0 < GLS_MAX_PARCELS_PER_BATCH C" "s < length parcels"
      "batch = take (min (s + GLS_MAX_PARCELS_PER_BATCH C) (length parcels) - s) (drop s parcels)"
      "bis = take (min (s + GLS_MAX_PARCELS_PER_BATCH C) (length parcels) - s) (drop s rows)"
    from ub h(3,4) have "upload_batch C E cr bp fp gp
        (take (min (s + GLS_MAX_PARCELS_PER_BATCH C) (length parcels) - s) (drop s parcels))
        (take (min (s + GLS_MAX_PARCELS_PER_BATCH C) (length parcels) - s) (drop s rows))
        res w = (None, failed_rows e bis res, w1)" by simp
    with h(1,2) show "upload_batches_from C E cr bp fp gp parcels rows s res w =
        upload_batches_from C E cr bp fp gp parcels rows (s + GLS_MAX_PARCELS_PER_BATCH C)
          (failed_rows e bis res) w1"
      by (subst upload_batches_from.simps) (simp add: Let_def)
  qed
  have sc: "(case run_scenario of
         (Inr result, w2) \<Rightarrow>
           u_total result = 3 \<and> u_uploaded result = 2 \<and> u_skipped result = 0
           \<and> u_failed result = 1
           \<and> u_errors result = [''ERRORE 2: Fallito dopo 3 tentativi: timeout'']
           \<and> map length (submissions w2) = [2, 1] \<and> length (calls w2) = 4
           \<and> sleeps w2 = [2, 4]
       | (Inl ex, w2) \<Rightarrow> False)"
    by code_simp
  show ?thesis by (intro conjI ub cnt cont sc)
qed


theorem group_failure_isolation_witness:
  "fst (add_parcels config_scenario env_scenario credentials_scenario [post_init parcel_example]
          False third_batch_start)
     = Inl (GLSClientError ''Fallito dopo 3 tentativi: timeout'')
   \<and> fst (upload_batch config_scenario env_scenario credentials_scenario ''/dati''
            file_scenario False [post_init parcel_example]
            [(2, row_scenario ''Gamma Snc'' ''3'')] new_GLSUploadResult third_batch_start)
       = None
   \<and> u_failed (fst (snd (upload_batch config_scenario env_scenario credentials_scenario
            ''/dati'' file_scenario False [post_init parcel_example]
            [(2, row_scenario ''Gamma Snc'' ''3'')] new_GLSUploadResult third_batch_start)))
       = 1
   \<and> u_errors (fst (snd (upload_batch config_scenario env_scenario credentials_scenario
            ''/dati'' file_scenario False [post_init parcel_example]
            [(2, row_scenario ''Gamma Snc'' ''3'')] new_GLSUploadResult third_batch_start)))
       = [''ERRORE 2: Fallito dopo 3 tentativi: timeout'']"
proof -
  let ?a = "add_parcels config_scenario env_scenario credentials_scenario
              [post_init parcel_example] False third_batch_start"
  have f: "fst ?a = Inl (GLSClientError ''Fallito dopo 3 tentativi: timeout'')"
    by (simp add: third_batch_start_def run_defs digits_def cong: prod.case_cong_weak)
  then have h: "?a = (Inl (GLSClientError ''Fallito dopo 3 tentativi: timeout''), snd ?a)"
    by (simp add: prod_eq_iff)
  have e: "failed_rows ''Fallito dopo 3 tentativi: timeout''
             [(2, row_scenario ''Gamma Snc'' ''3'')] new_GLSUploadResult
           = new_GLSUploadResult\<lparr>u_failed := 1,
               u_errors := [''ERRORE 2: Fallito dopo 3 tentativi: timeout'']\<rparr>"
    by (simp add: failed_rows_def new_GLSUploadResult_def str_int_def digits_def)
  from group_failure_isolation [OF h, where bis = "[(2, row_scenario ''Gamma Snc'' ''3'')]"
      and res = new_GLSUploadResult and bp = "''/dati''" and fp = file_scenario]
  have "upload_batch config_scenario env_scenario credentials_scenario ''/dati''
            file_scenario False [post_init parcel_example]
            [(2, row_scenario ''Gamma Snc'' ''3'')] new_GLSUploadResult third_batch_start
        = (None, failed_rows ''Fallito dopo 3 tentativi: timeout''
                   [(2, row_scenario ''Gamma Snc'' ''3'')] new_GLSUploadResult, snd ?a)"
    by (rule conjunct1)
  with f e show ?thesis by simp
qed

section \<open>Response count and index safety\<close>






section \<open>Ledger persistence\<close>

lemma save_cases:
  "save E folder w = (ex, w') \<Longrightarrow>
   tracker_data w' = tracker_data w
   \<and> (save_io E (saves w) = IoOk \<longrightarrow> ex = None \<and> disk w' folder = Complete (tracker_data w))
   \<and> (ex = None \<longrightarrow> save_io E (saves w) = IoOk)
   \<and> (\<forall>e d. save_io E (saves w) = WriteFails e d \<longrightarrow>
         ex = Some (RuntimeError (''Impossibile salvare tracker: '' @ e))
         \<and> disk w' folder = Truncated d)
   \<and> (\<forall>e. save_io E (saves w) = OpenFails e \<longrightarrow>
         ex = Some (RuntimeError (''Impossibile salvare tracker: '' @ e)) \<and> disk w' = disk w)
   \<and> (\<forall>f. f \<noteq> folder \<longrightarrow> disk w' f = disk w f)"
  by (cases "save_io E (saves w)")
     (auto simp: save_def Let_def open_for_write_def write_partly_def dump_and_close_def)

text \<open>
  C2, as the code has it: \<open>mark_uploaded\<close> stores the record under the key of the row,
  appends the history entry, and then rewrites the file in place. When the write meets
  no error the file holds the new complete ledger and nothing is raised; when
  \<open>json.dump\<close> fails the file is left truncated and a \<open>RuntimeError\<close> is raised; when
  \<open>open\<close> fails the file is as before; the files of other folders are not touched.
  During a write the file is the previous one, then a truncated one, then the new one,
  and a truncated file is loaded as the empty ledger or not at all.
\<close>

theorem ledger_persistence:
  "(mark_uploaded E bp fp idx rd sid resp w = (ex, w') \<longrightarrow>
      uploads (tracker_data w') =
        (uploads (tracker_data w))
          (generate_row_key E fp idx rd \<mapsto>
             \<lparr>rec_file = path_name E fp, rec_row = idx, rec_shipment_id = sid,
              rec_ragione_sociale = ragione_sociale rd,
              rec_uploaded_at = now_isoformat E (clock w),
              rec_response = (if resp \<noteq> [] then Some resp else None)\<rparr>)
      \<and> history (tracker_data w') =
          history (tracker_data w)
            @ [UploadAction (generate_row_key E fp idx rd) (now_isoformat E (clock w + 1)) sid]
      \<and> (save_io E (saves w) = IoOk \<longrightarrow> ex = None \<and> disk w' bp = Complete (tracker_data w'))
      \<and> (ex = None \<longrightarrow> save_io E (saves w) = IoOk)
      \<and> (\<forall>e d. save_io E (saves w) = WriteFails e d \<longrightarrow>
            ex = Some (RuntimeError (''Impossibile salvare tracker: '' @ e))
            \<and> disk w' bp = Truncated d)
      \<and> (\<forall>e. save_io E (saves w) = OpenFails e \<longrightarrow>
            ex = Some (RuntimeError (''Impossibile salvare tracker: '' @ e))
            \<and> disk w' = disk w)
      \<and> (\<forall>f. f \<noteq> bp \<longrightarrow> disk w' f = disk w f))
   \<and> save_file_states bp v = [disk v bp, Truncated True, Complete (tracker_data v)]
   \<and> load (Truncated True) = Inr empty_ledger
   \<and> load (Truncated False) = Inl UnicodeDecodeError"
proof -
  let ?d = "tracker_data w"
  let ?key = "generate_row_key E fp idx rd"
  let ?w1 = "w\<lparr>clock := clock w + 2,
        tracker_data := ?d\<lparr>uploads := (uploads ?d)(?key \<mapsto>
             \<lparr>rec_file = path_name E fp, rec_row = idx, rec_shipment_id = sid,
              rec_ragione_sociale = ragione_sociale rd,
              rec_uploaded_at = now_isoformat E (clock w),
              rec_response = (if resp \<noteq> [] then Some resp else None)\<rparr>),
          history := history ?d @ [UploadAction ?key (now_isoformat E (clock w + 1)) sid]\<rparr>\<rparr>"
  have m: "mark_uploaded E bp fp idx rd sid resp w = save E bp ?w1"
    by (simp add: mark_uploaded_def Let_def)
  have a: "mark_uploaded E bp fp idx rd sid resp w = (ex, w') \<longrightarrow>
      uploads (tracker_data w') =
        (uploads (tracker_data w))
          (generate_row_key E fp idx rd \<mapsto>
             \<lparr>rec_file = path_name E fp, rec_row = idx, rec_shipment_id = sid,
              rec_ragione_sociale = ragione_sociale rd,
              rec_uploaded_at = now_isoformat E (clock w),
              rec_response = (if resp \<noteq> [] then Some resp else None)\<rparr>)
      \<and> history (tracker_data w') =
          history (tracker_data w)
            @ [UploadAction (generate_row_key E fp idx rd) (now_isoformat E (clock w + 1)) sid]
      \<and> (save_io E (saves w) = IoOk \<longrightarrow> ex = None \<and> disk w' bp = Complete (tracker_data w'))
      \<and> (ex = None \<longrightarrow> save_io E (saves w) = IoOk)
      \<and> (\<forall>e d. save_io E (saves w) = WriteFails e d \<longrightarrow>
            ex = Some (RuntimeError (''Impossibile salvare tracker: '' @ e))
            \<and> disk w' bp = Truncated d)
      \<and> (\<forall>e. save_io E (saves w) = OpenFails e \<longrightarrow>
            ex = Some (RuntimeError (''Impossibile salvare tracker: '' @ e))
            \<and> disk w' = disk w)
      \<and> (\<forall>f. f \<noteq> bp \<longrightarrow> disk w' f = disk w f)"
  proof
    assume "mark_uploaded E bp fp idx rd sid resp w = (ex, w')"
    with m have s: "save E bp ?w1 = (ex, w')" by simp
    note c = save_cases [OF s]
    from c have td: "tracker_data w' = tracker_data ?w1" by blast
    have u: "uploads (tracker_data w') =
        (uploads (tracker_data w))
          (generate_row_key E fp idx rd \<mapsto>
             \<lparr>rec_file = path_name E fp, rec_row = idx, rec_shipment_id = sid,
              rec_ragione_sociale = ragione_sociale rd,
              rec_uploaded_at = now_isoformat E (clock w),
              rec_response = (if resp \<noteq> [] then Some resp else None)\<rparr>)"
      by (simp add: td)
    have h: "history (tracker_data w') =
          history (tracker_data w)
            @ [UploadAction (generate_row_key E fp idx rd) (now_isoformat E (clock w + 1)) sid]"
      by (simp add: td)
    have k: "saves ?w1 = saves w" "disk ?w1 = disk w" by simp_all
    from c have c1: "save_io E (saves w) = IoOk \<longrightarrow>
        ex = None \<and> disk w' bp = Complete (tracker_data w')"
      unfolding k td by blast
    from c have c2: "ex = None \<longrightarrow> save_io E (saves w) = IoOk" unfolding k by blast
    from c have c3: "\<forall>e d. save_io E (saves w) = WriteFails e d \<longrightarrow>
            ex = Some (RuntimeError (''Impossibile salvare tracker: '' @ e))
            \<and> disk w' bp = Truncated d" unfolding k by blast
    from c have c4: "\<forall>e. save_io E (saves w) = OpenFails e \<longrightarrow>
            ex = Some (RuntimeError (''Impossibile salvare tracker: '' @ e))
            \<and> disk w' = disk w" unfolding k by blast
    from c have c5: "\<forall>f. f \<noteq> bp \<longrightarrow> disk w' f = disk w f" unfolding k by blast
    show "uploads (tracker_data w') =
        (uploads (tracker_data w))
          (generate_row_key E fp idx rd \<mapsto>
             \<lparr>rec_file = path_name E fp, rec_row = idx, rec_shipment_id = sid,
              rec_ragione_sociale = ragione_sociale rd,
              rec_uploaded_at = now_isoformat E (clock w),
              rec_response = (if resp \<noteq> [] then Some resp else None)\<rparr>)
      \<and> history (tracker_data w') =
          history (tracker_data w)
            @ [UploadAction (generate_row_key E fp idx rd) (now_isoformat E (clock w + 1)) sid]
      \<and> (save_io E (saves w) = IoOk \<longrightarrow> ex = None \<and> disk w' bp = Complete (tracker_data w'))
      \<and> (ex = None \<longrightarrow> save_io E (saves w) = IoOk)
      \<and> (\<forall>e d. save_io E (saves w) = WriteFails e d \<longrightarrow>
            ex = Some (RuntimeError (''Impossibile salvare tracker: '' @ e))
            \<and> disk w' bp = Truncated d)
      \<and> (\<forall>e. save_io E (saves w) = OpenFails e \<longrightarrow>
            ex = Some (RuntimeError (''Impossibile salvare tracker: '' @ e))
            \<and> disk w' = disk w)
      \<and> (\<forall>f. f \<noteq> bp \<longrightarrow> disk w' f = disk w f)"
      by (intro conjI u h c1 c2 c3 c4 c5)
  qed
  have b: "save_file_states bp v = [disk v bp, Truncated True, Complete (tracker_data v)]"
    by (simp add: save_file_states_def open_for_write_def dump_and_close_def)
  have c: "load (Truncated True) = Inr empty_ledger" "load (Truncated False) = Inl UnicodeDecodeError"
    by (simp_all add: load_def)
  show ?thesis by (intro conjI a b c)
qed

theorem ledger_persistence_witness:
  "save_io env_scenario (saves world_one) = IoOk
   \<and> save_io env_save_fails (saves world_one)
       = WriteFails ''[Errno 28] No space left on device'' True
   \<and> fst (mark_second env_scenario) = None
   \<and> disk (snd (mark_second env_scenario)) ''/dati''
       = Complete (tracker_data (snd (mark_second env_scenario)))
   \<and> length (history (tracker_data (snd (mark_second env_scenario)))) = 2
   \<and> fst (mark_second env_save_fails)
       = Some (RuntimeError ''Impossibile salvare tracker: [Errno 28] No space left on device'')
   \<and> disk (snd (mark_second env_save_fails)) ''/dati'' = Truncated True"
proof -
  have h1: "save_io env_scenario (saves world_one) = IoOk"
    by (simp add: env_scenario_def)
  have h2: "save_io env_save_fails (saves world_one)
       = WriteFails ''[Errno 28] No space left on device'' True"
    by (simp add: env_save_fails_def env_scenario_def)
  have p: "mark_uploaded E ''/dati'' file_scenario 1 (row_scenario ''Beta Spa'' ''2'')
             ''580000002'' [(''esito'', ''OK'')] world_one
           = (fst (mark_second E), snd (mark_second E))" for E
    by (simp add: mark_second_def)
  note t1 = ledger_persistence [where E = env_scenario and ex = "fst (mark_second env_scenario)"
      and w' = "snd (mark_second env_scenario)" and w = world_one and bp = "''/dati''"
      and fp = file_scenario and idx = 1 and rd = "row_scenario ''Beta Spa'' ''2''"
      and sid = "''580000002''" and resp = "[(''esito'', ''OK'')]", THEN conjunct1, THEN mp, OF p]
  note t2 = ledger_persistence [where E = env_save_fails and ex = "fst (mark_second env_save_fails)"
      and w' = "snd (mark_second env_save_fails)" and w = world_one and bp = "''/dati''"
      and fp = file_scenario and idx = 1 and rd = "row_scenario ''Beta Spa'' ''2''"
      and sid = "''580000002''" and resp = "[(''esito'', ''OK'')]", THEN conjunct1, THEN mp, OF p]
  from t1 h1 have a: "fst (mark_second env_scenario) = None"
    "disk (snd (mark_second env_scenario)) ''/dati''
       = Complete (tracker_data (snd (mark_second env_scenario)))" by blast+
  from t1 have "history (tracker_data (snd (mark_second env_scenario)))
      = history (tracker_data world_one) @ [UploadAction
          (generate_row_key env_scenario file_scenario 1 (row_scenario ''Beta Spa'' ''2''))
          (now_isoformat env_scenario (clock world_one + 1)) ''580000002'']" by blast
  then have l: "length (history (tracker_data (snd (mark_second env_scenario)))) = 2"
    by (simp add: world_one_def ledger_one_def)
  from t2 h2 have b: "fst (mark_second env_save_fails)
       = Some (RuntimeError ''Impossibile salvare tracker: [Errno 28] No space left on device'')"
    "disk (snd (mark_second env_save_fails)) ''/dati'' = Truncated True" by auto
  show ?thesis by (intro conjI h1 h2 a l b)
qed

text \<open>C2 as stated fails: between the \<open>open\<close> and the end of the dump the file holds
  neither the previous ledger nor the new one, the next load of that file gives a ledger
  without the record of the first row, and an \<open>IOError\<close> of the dump leaves it so.\<close>

theorem ledger_write_leaves_truncated_file:
  "save_file_states ''/dati'' world_one
     = [Complete ledger_one, Truncated True, Complete (tracker_data world_one)]
   \<and> load (Truncated True) = Inr empty_ledger
   \<and> uploads ledger_one ''ordini_VALIDATO:0:9e107d9d'' \<noteq> None
   \<and> uploads empty_ledger ''ordini_VALIDATO:0:9e107d9d'' = None
   \<and> disk world_one ''/dati'' = Complete ledger_one
   \<and> fst (mark_second env_save_fails)
       = Some (RuntimeError ''Impossibile salvare tracker: [Errno 28] No space left on device'')
   \<and> disk (snd (mark_second env_save_fails)) ''/dati'' = Truncated True"
proof -
  have a: "save_file_states ''/dati'' world_one
     = [Complete ledger_one, Truncated True, Complete (tracker_data world_one)]"
    by (simp add: save_file_states_def open_for_write_def dump_and_close_def world_one_def
          new_world_def)
  have b: "load (Truncated True) = Inr empty_ledger" by (simp add: load_def)
  have c: "uploads ledger_one ''ordini_VALIDATO:0:9e107d9d'' \<noteq> None"
    "uploads empty_ledger ''ordini_VALIDATO:0:9e107d9d'' = None"
    by (simp_all add: ledger_one_def empty_ledger_def)
  have d: "disk world_one ''/dati'' = Complete ledger_one"
    by (simp add: world_one_def new_world_def)
  have e: "fst (mark_second env_save_fails)
       = Some (RuntimeError ''Impossibile salvare tracker: [Errno 28] No space left on device'')"
    "disk (snd (mark_second env_save_fails)) ''/dati'' = Truncated True"
    by (simp_all add: mark_second_def mark_uploaded_def save_def Let_def env_save_fails_def
          env_scenario_def open_for_write_def write_partly_def world_one_def new_world_def)
  show ?thesis by (intro conjI a b c d e)
qed

section \<open>Idempotency\<close>

lemma add_skip_counts:
  "u_uploaded (add_skip m res) = u_uploaded res"
  "u_failed (add_skip m res) = u_failed res"
  "u_skipped (add_skip m res) = u_skipped res + 1"
  "u_total (add_skip m res) = u_total res"
  by (simp_all add: add_skip_def Let_def)

lemma prepare_skip:
  "prepare E True T fp colli peso rows (res, ps, ris) = (res', ps', ris') \<Longrightarrow>
   ris' = ris @ to_submit E T fp colli peso rows
   \<and> ps' = ps @ parcels_of colli peso (to_submit E T fp colli peso rows)
   \<and> u_skipped res' = u_skipped res + length (already_uploaded E T fp rows)
   \<and> u_uploaded res' = u_uploaded res \<and> u_total res' = u_total res"
proof (induction rows arbitrary: res ps ris)
  case Nil
  then show ?case
    by (simp add: to_submit_def parcels_of_def already_uploaded_def List.map_filter_simps)
next
  case (Cons row rows)
  obtain idx rd where r: "row = (idx, rd)" by (cases row)
  show ?case
  proof (cases "is_uploaded E T fp idx rd")
    case True
    with Cons.prems r
    have "prepare E True T fp colli peso rows
            (add_skip (''Riga '' @ str_int idx @ '' gi'' @ [CHR 0xE0] @ '' caricata'') res, ps, ris)
          = (res', ps', ris')" by simp
    from Cons.IH [OF this] True r show ?thesis
      by (simp add: to_submit_def already_uploaded_def add_skip_counts)
  next
    case False
    show ?thesis
    proof (cases "create_parcel rd colli peso")
      case None
      with False Cons.prems r
      have "prepare E True T fp colli peso rows
              (add_failure ''Dati insufficienti'' (str_int idx) res, ps, ris) = (res', ps', ris')"
        by simp
      from Cons.IH [OF this] False None r show ?thesis
        by (simp add: to_submit_def already_uploaded_def add_failure_counts)
    next
      case (Some p)
      with False Cons.prems r
      have "prepare E True T fp colli peso rows (res, ps @ [p], ris @ [(idx, rd)])
            = (res', ps', ris')" by simp
      from Cons.IH [OF this] False Some r show ?thesis
        by (simp add: to_submit_def already_uploaded_def parcels_of_def List.map_filter_simps)
    qed
  qed
qed

lemma save_tracker: "save E folder w = (ex, w1) \<Longrightarrow> tracker_data w1 = tracker_data w"
  by (auto simp: save_def Let_def open_for_write_def write_partly_def dump_and_close_def
      split: io_outcome.splits)

lemma mark_uploaded_uploads:
  "mark_uploaded E bp fp idx rd sid resp w = (ex, w1) \<Longrightarrow>
   k \<noteq> generate_row_key E fp idx rd \<Longrightarrow>
   uploads (tracker_data w1) k = uploads (tracker_data w) k"
  unfolding mark_uploaded_def Let_def by (drule save_tracker) simp

lemma mark_uploaded_is_uploaded:
  "mark_uploaded E bp fp idx rd sid resp w = (ex, w1) \<Longrightarrow>
   is_uploaded E (tracker_data w1) fp idx rd"
  unfolding mark_uploaded_def Let_def by (drule save_tracker) (simp add: is_uploaded_def)

lemma mark_uploaded_disk:
  "mark_uploaded E bp fp idx rd sid resp w = (None, w1) \<Longrightarrow>
   disk w1 bp = Complete (tracker_data w1)"
  unfolding mark_uploaded_def Let_def
  by (auto simp: save_def Let_def open_for_write_def dump_and_close_def split: io_outcome.splits)

lemma reconcile_uploads:
  "reconcile E bp fp bis i rs res w = (raised, res', w') \<Longrightarrow> k \<notin> keys_of E fp bis \<Longrightarrow>
   uploads (tracker_data w') k = uploads (tracker_data w) k"
proof (induction rs arbitrary: i res w)
  case Nil
  then show ?case by simp
next
  case (Cons r rs)
  show ?case
  proof (cases "i < length bis")
    case False
    with Cons.prems show ?thesis by simp
  next
    case True
    obtain idx rd where b: "bis ! i = (idx, rd)" by (cases "bis ! i")
    from True b have "(idx, rd) \<in> set bis" by (metis nth_mem)
    then have "generate_row_key E fp idx rd \<in> keys_of E fp bis"
      by (force simp: keys_of_def)
    with Cons.prems(2) have ne: "k \<noteq> generate_row_key E fp idx rd" by auto
    show ?thesis
    proof (cases "is_success r")
      case False
      with True b Cons.prems(1)
      have "reconcile E bp fp bis (i + 1) rs
              (add_failure (if r_error_message r \<noteq> [] then r_error_message r
                            else ''Errore sconosciuto'') (r_bda r) res) w = (raised, res', w')"
        by simp
      from Cons.IH [OF this Cons.prems(2)] show ?thesis .
    next
      case s: True
      obtain ex w1 where m: "mark_uploaded E bp fp idx rd (r_numero_spedizione r)
                               [(''esito'', r_esito r)] w = (ex, w1)"
        by (cases "mark_uploaded E bp fp idx rd (r_numero_spedizione r) [(''esito'', r_esito r)] w")
      note u = mark_uploaded_uploads [OF m ne]
      show ?thesis
      proof (cases ex)
        case None
        with True b s m Cons.prems(1)
        have "reconcile E bp fp bis (i + 1) rs (add_success r res) w1 = (raised, res', w')"
          by simp
        from Cons.IH [OF this Cons.prems(2)] u show ?thesis by simp
      next
        case (Some e)
        with True b s m Cons.prems(1) have "w' = w1" by simp
        with u show ?thesis by simp
      qed
    qed
  qed
qed

lemma retry_loop_tracker:
  "retry_loop C E op a lerr w = (r, w') \<Longrightarrow> tracker_data w' = tracker_data w"
proof (induction "GLS_RETRY_ATTEMPTS C - a" arbitrary: a lerr w)
  case 0
  then show ?case by (auto simp: retry_loop.simps [of C E op a lerr w])
next
  case (Suc m)
  then have lt: "a < GLS_RETRY_ATTEMPTS C" by simp
  have m: "m = GLS_RETRY_ATTEMPTS C - (a + 1)" using Suc.hyps(2) by simp
  have ih: "tracker_data w' = tracker_data v"
    if "retry_loop C E op (a + 1) le v = (r, w')" for le v
    using Suc.hyps(1) [OF m that] .
  define w1 where "w1 = w\<lparr>calls := calls w @ [op]\<rparr>"
  define w2 where "w2 = (if a < GLS_RETRY_ATTEMPTS C - 1
                         then w1\<lparr>sleeps := sleeps w1 @ [GLS_RETRY_DELAY C * 2 ^ a]\<rparr> else w1)"
  have s12: "tracker_data w1 = tracker_data w" "tracker_data w2 = tracker_data w"
    by (simp_all add: w1_def w2_def)
  have step: "retry_loop C E op a lerr w =
     (case remote E (length (calls w)) op of
        Returns body \<Rightarrow> (Inr body, w1)
      | Fault e \<Rightarrow> retry_loop C E op (a + 1) (Some e) w2
      | TransportError e \<Rightarrow> retry_loop C E op (a + 1) (Some e) w2
      | OtherException e \<Rightarrow> (Inl (GLSClientError (''Errore imprevisto: '' @ e)), w1))"
    using lt by (subst retry_loop.simps)
      (auto simp add: Let_def w1_def w2_def split: remote_outcome.splits)
  show ?case
  proof (cases "remote E (length (calls w)) op")
    case (Returns body)
    with step Suc.prems s12 show ?thesis by auto
  next
    case (Fault e)
    with step Suc.prems have "retry_loop C E op (a + 1) (Some e) w2 = (r, w')" by simp
    from ih [OF this] s12 show ?thesis by simp
  next
    case (TransportError e)
    with step Suc.prems have "retry_loop C E op (a + 1) (Some e) w2 = (r, w')" by simp
    from ih [OF this] s12 show ?thesis by simp
  next
    case (OtherException e)
    with step Suc.prems s12 show ?thesis by auto
  qed
qed

lemma execute_with_retry_tracker:
  assumes "execute_with_retry C E op w = (r, w')"
  shows "tracker_data w' = tracker_data w"
proof -
  obtain ex w1 where g: "get_client E w = (ex, w1)" by (cases "get_client E w")
  from get_client_frame [OF g] have k: "tracker_data w1 = tracker_data w" by simp
  show ?thesis
  proof (cases ex)
    case (Some e)
    with assms g k show ?thesis by (auto simp: execute_with_retry_def)
  next
    case None
    with assms g have "retry_loop C E op 0 None w1 = (r, w')"
      by (simp add: execute_with_retry_def)
    from retry_loop_tracker [OF this] k show ?thesis by simp
  qed
qed

lemma add_parcels_tracker:
  assumes "add_parcels C E cr ps gp w = (r, w')"
  shows "tracker_data w' = tracker_data w"
proof -
  let ?w0 = "w\<lparr>submissions := submissions w @ [ps]\<rparr>"
  obtain r1 w1 where e: "execute_with_retry C E (AddParcel cr ps gp) ?w0 = (r1, w1)"
    by (cases "execute_with_retry C E (AddParcel cr ps gp) ?w0")
  from execute_with_retry_tracker [OF e] have k: "tracker_data w1 = tracker_data w" by simp
  show ?thesis
  proof (cases "GLS_MAX_PARCELS_PER_BATCH C < length ps \<or> ps = []")
    case True
    with assms have "w' = ?w0" by (auto simp: add_parcels_def Let_def)
    then show ?thesis by simp
  next
    case False
    with assms e have "w' = w1" by (cases r1) (auto simp: add_parcels_def Let_def)
    with k show ?thesis by simp
  qed
qed

lemma upload_batch_uploads:
  assumes "upload_batch C E cr bp fp gp batch bis res w = (raised, res', w')"
    and "k \<notin> keys_of E fp bis"
  shows "uploads (tracker_data w') k = uploads (tracker_data w) k"
proof -
  obtain r1 w1 where a: "add_parcels C E cr batch gp w = (r1, w1)"
    by (cases "add_parcels C E cr batch gp w")
  from add_parcels_tracker [OF a] have t: "tracker_data w1 = tracker_data w" .
  show ?thesis
  proof (cases r1)
    case (Inl e)
    with assms(1) a t show ?thesis by (cases e) (auto simp: upload_batch_def)
  next
    case (Inr responses)
    with assms(1) a have "reconcile E bp fp bis 0 responses res w1 = (raised, res', w')"
      by (simp add: upload_batch_def)
    from reconcile_uploads [OF this assms(2)] t show ?thesis by simp
  qed
qed

lemma keys_of_take_drop: "k \<notin> keys_of E fp rows \<Longrightarrow> k \<notin> keys_of E fp (take n (drop s rows))"
  unfolding keys_of_def by (auto dest!: in_set_takeD in_set_dropD)

lemma upload_batches_from_uploads:
  "upload_batches_from C E cr bp fp gp parcels rows s res w = (raised, res', w') \<Longrightarrow>
   k \<notin> keys_of E fp rows \<Longrightarrow>
   uploads (tracker_data w') k = uploads (tracker_data w) k"
proof (induction "length parcels - s" arbitrary: s res w rule: less_induct)
  case less
  let ?m = "GLS_MAX_PARCELS_PER_BATCH C"
  show ?case
  proof (cases "0 < ?m \<and> s < length parcels")
    case False
    with less.prems(1) have "w' = w"
      by (auto simp: upload_batches_from.simps [of C E cr bp fp gp parcels rows s res w])
    then show ?thesis by simp
  next
    case True
    let ?b = "take (min (s + ?m) (length parcels) - s) (drop s parcels)"
    let ?bi = "take (min (s + ?m) (length parcels) - s) (drop s rows)"
    obtain ex r1 w1 where u: "upload_batch C E cr bp fp gp ?b ?bi res w = (ex, r1, w1)"
      by (cases "upload_batch C E cr bp fp gp ?b ?bi res w")
    from upload_batch_uploads [OF u keys_of_take_drop [OF less.prems(2)]]
    have s1: "uploads (tracker_data w1) k = uploads (tracker_data w) k" .
    show ?thesis
    proof (cases ex)
      case (Some e)
      with True u less.prems(1) have "w' = w1"
        by (auto simp: upload_batches_from.simps [of C E cr bp fp gp parcels rows s res w] Let_def)
      with s1 show ?thesis by simp
    next
      case None
      with True u less.prems(1)
      have rec: "upload_batches_from C E cr bp fp gp parcels rows (s + ?m) r1 w1 = (raised, res', w')"
        by (auto simp: upload_batches_from.simps [of C E cr bp fp gp parcels rows s res w] Let_def)
      from True have "length parcels - (s + ?m) < length parcels - s" by auto
      from less.hyps [OF this rec less.prems(2)] s1 show ?thesis by simp
    qed
  qed
qed

end
